theory Spec2Isabelle
  imports Main "HOL-Library.Word"
begin

unbundle bit_operations_syntax

section \<open>Conventions\<close>

text \<open>
  A Kotlin or TypeScript string is modelled as a \<^typ>\<open>string\<close>: a list of characters
  whose codes are the code points U+0000 to U+00FF. The library functions that look a
  character up in the Unicode tables (\<open>Character.digit\<close>, \<open>Char.isWhitespace\<close>,
  \<open>String.lowercase\<close>) are written out for exactly this range. A Kotlin \<open>Char\<close> that
  the code computes with \<open>Int.toChar()\<close> is a 16-bit code unit, a \<^typ>\<open>16 word\<close>.
  A Kotlin \<open>Byte\<close> is an \<^typ>\<open>8 word\<close>, read signed with \<^const>\<open>sint\<close>.
\<close>

type_synonym byte = "8 word"
type_synonym kchar = "16 word"

text \<open>
  An exception is a value. \<open>InvalidRecoveryPhrase\<close> is the
  \<open>Exception("Invalid Recovery Phrase. Please check spelling.")\<close> of the wallet import, the
  specification's \<open>InvalidMnemonic\<close>; \<open>AEADBadTagException\<close> is what the cipher throws
  when a tag does not verify, the specification's \<open>AuthenticationFailure\<close>.
\<close>

datatype exn =
    IOException
  | JSONException
  | NumberFormatException
  | StringIndexOutOfBoundsException
  | IllegalArgumentException
  | MnemonicException
  | InvalidKeyException
  | InvalidAlgorithmParameterException
  | AEADBadTagException
  | InvalidRecoveryPhrase

definition LF :: char where
  "LF = CHR 0x0A"

definition startsWith :: "string \<Rightarrow> string \<Rightarrow> bool" where
  "startsWith s p = (take (length p) s = p)"

section \<open>The challenge message (WalletContext.tsx)\<close>

text \<open>
  \<open>generateAuthMessage\<close> reads the clock (\<open>Date.now()\<close>, an integral number of
  milliseconds) and fills a template literal. A template literal renders a number with
  \<open>Number::toString\<close>, which for an integer of magnitude below \<open>10^21\<close> is its decimal
  numeral, with a minus sign when negative; every value of \<open>Date.now()\<close> is in that range.
\<close>

definition digit_char :: "nat \<Rightarrow> char" where
  "digit_char d = char_of (48 + d)"

function dec_digits :: "nat \<Rightarrow> string" where
  "dec_digits n = (if n < 10 then [digit_char n]
                   else dec_digits (n div 10) @ [digit_char (n mod 10)])"
  by pat_completeness auto
termination
  by (relation "measure id") auto

declare dec_digits.simps [simp del]

definition number_toString :: "int \<Rightarrow> string" where
  "number_toString i = (if i < 0 then CHR ''-'' # dec_digits (nat (- i)) else dec_digits (nat i))"

definition generateAuthMessage :: "int \<Rightarrow> string \<Rightarrow> string" where
  "generateAuthMessage now address =
     (let timestamp = now in
      ''Sign this message to authenticate with LifeVault.'' @ [LF, LF]
      @ ''Wallet: '' @ address @ [LF]
      @ ''Timestamp: '' @ number_toString timestamp @ [LF, LF]
      @ ''This signature will not trigger any blockchain transaction or cost any gas fees.'')"

text \<open>
  The template as the specification writes it, with its three placeholders, and the
  filling of a template: one pass from left to right, a placeholder replaced by its value,
  the inserted value never scanned again.
\<close>

definition challenge_template :: string where
  "challenge_template =
     ''Sign this message to authenticate with <App>.'' @ [LF, LF]
     @ ''Wallet: <address>'' @ [LF]
     @ ''Timestamp: <timestampMs>'' @ [LF, LF]
     @ ''This signature will not trigger any blockchain transaction or cost any gas fees.''"

fun placeholder_at :: "(string \<times> string) list \<Rightarrow> string \<Rightarrow> (string \<times> string) option" where
  "placeholder_at [] s = None"
| "placeholder_at ((k, v) # kvs) s =
     (if k \<noteq> [] \<and> startsWith s k then Some (k, v) else placeholder_at kvs s)"

fun fill_from :: "(string \<times> string) list \<Rightarrow> nat \<Rightarrow> string \<Rightarrow> string" where
  "fill_from kvs n [] = []"
| "fill_from kvs (Suc n) (c # cs) = fill_from kvs n cs"
| "fill_from kvs 0 (c # cs) =
     (case placeholder_at kvs (c # cs) of
        Some (k, v) \<Rightarrow> v @ fill_from kvs (length k - 1) cs
      | None \<Rightarrow> c # fill_from kvs 0 cs)"

definition fill_template :: "(string \<times> string) list \<Rightarrow> string \<Rightarrow> string" where
  "fill_template kvs t = fill_from kvs 0 t"

section \<open>Reading the chain state (AptosClient)\<close>

subsection \<open>The node's answers and \<open>org.json\<close>\<close>

text \<open>
  The client is handed parsed JSON. A number keeps the text that \<open>String.valueOf\<close>
  gives it. An object is its list of members; \<open>opt\<close> looks a name up.
\<close>

datatype json =
    JNull
  | JBool bool
  | JNum string
  | JStr string
  | JArr "json list"
  | JObj "(string \<times> json) list"

text \<open>
  What \<open>response.body?.string()\<close> yields: no body, a read that throws, a text that is not
  JSON, or a text with its parse.
\<close>

datatype body = NoBody | ReadFailed | Malformed | Parsed json

text \<open>A request, and what \<open>httpClient.newCall(request).execute()\<close> yields.\<close>

datatype request = GET string | POST string json

datatype http_result = NetworkError | Response bool body

text \<open>
  \<open>AptosConfig\<close> is declared outside the files at hand: its constants are parameters.
  The node is a function from the request to what the call yields.
\<close>

record AptosConfig =
  NODE_URL :: string
  MODULE_ADDRESS :: string
  MODULE_NAME :: string

text \<open>\<open>JSONObject(text)\<close> and \<open>JSONArray(text)\<close>, with \<open>?: "{}"\<close> and \<open>?: "[]"\<close> for no body.\<close>

definition new_JSONObject :: "body \<Rightarrow> exn + (string \<times> json) list" where
  "new_JSONObject b =
     (case b of
        NoBody \<Rightarrow> Inr []
      | ReadFailed \<Rightarrow> Inl IOException
      | Malformed \<Rightarrow> Inl JSONException
      | Parsed (JObj ms) \<Rightarrow> Inr ms
      | Parsed _ \<Rightarrow> Inl JSONException)"

definition new_JSONArray :: "body \<Rightarrow> exn + json list" where
  "new_JSONArray b =
     (case b of
        NoBody \<Rightarrow> Inr []
      | ReadFailed \<Rightarrow> Inl IOException
      | Malformed \<Rightarrow> Inl JSONException
      | Parsed (JArr xs) \<Rightarrow> Inr xs
      | Parsed _ \<Rightarrow> Inl JSONException)"

definition optJSONObject :: "(string \<times> json) list \<Rightarrow> string \<Rightarrow> (string \<times> json) list option" where
  "optJSONObject ms name =
     (case map_of ms name of Some (JObj fs) \<Rightarrow> Some fs | _ \<Rightarrow> None)"

definition optJSONArray :: "json list \<Rightarrow> nat \<Rightarrow> json list option" where
  "optJSONArray xs i =
     (if i < length xs then (case xs ! i of JArr ys \<Rightarrow> Some ys | _ \<Rightarrow> None) else None)"

definition asJSONObject :: "json \<Rightarrow> exn + (string \<times> json) list" where
  "asJSONObject x = (case x of JObj ms \<Rightarrow> Inr ms | _ \<Rightarrow> Inl JSONException)"

definition getJSONObject :: "json list \<Rightarrow> nat \<Rightarrow> exn + (string \<times> json) list" where
  "getJSONObject xs i = (if i < length xs then asJSONObject (xs ! i) else Inl JSONException)"

text \<open>
  The text of a value, as \<open>JSONObject.toString\<close> and \<open>JSONArray.toString\<close> write it (no
  white space; a string quoted, with the escapes of \<open>JSONStringer\<close>).
\<close>

definition hex_digit_char :: "nat \<Rightarrow> char" where
  "hex_digit_char d = (if d < 10 then char_of (48 + d) else char_of (87 + d))"

definition json_escape_char :: "char \<Rightarrow> string" where
  "json_escape_char c =
     (if c = CHR 0x22 \<or> c = CHR 0x5C \<or> c = CHR ''/'' then [CHR 0x5C, c]
      else if c = CHR 0x09 then [CHR 0x5C, CHR ''t'']
      else if c = CHR 0x08 then [CHR 0x5C, CHR ''b'']
      else if c = CHR 0x0A then [CHR 0x5C, CHR ''n'']
      else if c = CHR 0x0D then [CHR 0x5C, CHR ''r'']
      else if c = CHR 0x0C then [CHR 0x5C, CHR ''f'']
      else if of_char c \<le> (0x1F :: nat)
        then [CHR 0x5C, CHR ''u'', CHR ''0'', CHR ''0'',
              hex_digit_char (of_char c div 16), hex_digit_char (of_char c mod 16)]
      else [c])"

definition json_quote :: "string \<Rightarrow> string" where
  "json_quote s = [CHR 0x22] @ concat (map json_escape_char s) @ [CHR 0x22]"

fun intersperse :: "string \<Rightarrow> string list \<Rightarrow> string" where
  "intersperse sep [] = []"
| "intersperse sep [x] = x"
| "intersperse sep (x # y # ys) = x @ sep @ intersperse sep (y # ys)"

fun json_text :: "json \<Rightarrow> string" where
  "json_text JNull = ''null''"
| "json_text (JBool b) = (if b then ''true'' else ''false'')"
| "json_text (JNum t) = t"
| "json_text (JStr s) = json_quote s"
| "json_text (JArr xs) = ''['' @ intersperse '','' (map json_text xs) @ '']''"
| "json_text (JObj ms) =
     ''{'' @ intersperse '','' (map (\<lambda>(k, v). json_quote k @ '':'' @ json_text v) ms) @ ''}''"

text \<open>
  \<open>optString(name, fallback)\<close>: the member when it is a string, the text of any other
  member (\<open>String.valueOf\<close>), the fallback when there is none.
\<close>

definition optString :: "(string \<times> json) list \<Rightarrow> string \<Rightarrow> string \<Rightarrow> string" where
  "optString ms name fallback =
     (case map_of ms name of
        None \<Rightarrow> fallback
      | Some (JStr s) \<Rightarrow> s
      | Some v \<Rightarrow> json_text v)"

subsection \<open>Parsing numbers\<close>

text \<open>\<open>Character.digit(c, radix)\<close> on the characters of the model, for a radix up to 16.\<close>

definition digitOf :: "char \<Rightarrow> nat \<Rightarrow> nat option" where
  "digitOf c radix =
     (let n = (of_char c :: nat);
          d = (if 48 \<le> n \<and> n \<le> 57 then Some (n - 48)
               else if 97 \<le> n \<and> n \<le> 122 then Some (n - 87)
               else if 65 \<le> n \<and> n \<le> 90 then Some (n - 55)
               else None)
      in case d of Some v \<Rightarrow> (if v < radix then Some v else None) | None \<Rightarrow> None)"

text \<open>The digits of a numeral, most significant first; \<open>None\<close> at the first non-digit.\<close>

fun digits_value :: "nat \<Rightarrow> nat \<Rightarrow> string \<Rightarrow> nat option" where
  "digits_value radix acc [] = Some acc"
| "digits_value radix acc (c # cs) =
     (case digitOf c radix of
        None \<Rightarrow> None
      | Some d \<Rightarrow> digits_value radix (acc * radix + d) cs)"

text \<open>
  An optional sign, then at least one digit: the integer a numeral denotes, as
  \<open>Integer.parseInt\<close> and \<open>String.toLongOrNull\<close> read it before their range check.
\<close>

definition signed_value :: "nat \<Rightarrow> string \<Rightarrow> int option" where
  "signed_value radix s =
     (case s of
        [] \<Rightarrow> None
      | c # cs \<Rightarrow>
          if of_char c < (48 :: nat) then
            (if cs = [] then None
             else if c = CHR ''-'' then map_option (\<lambda>n. - int n) (digits_value radix 0 cs)
             else if c = CHR ''+'' then map_option int (digits_value radix 0 cs)
             else None)
          else map_option int (digits_value radix 0 s))"

text \<open>\<open>String.toInt(16)\<close>, that is \<open>Integer.parseInt(s, 16)\<close>: an \<open>Int\<close> or a \<open>NumberFormatException\<close>.\<close>

definition toInt16 :: "string \<Rightarrow> exn + int" where
  "toInt16 s =
     (case signed_value 16 s of
        None \<Rightarrow> Inl NumberFormatException
      | Some v \<Rightarrow> if - (2 ^ 31) \<le> v \<and> v < 2 ^ 31 then Inr v else Inl NumberFormatException)"

text \<open>\<open>String.toLongOrNull()\<close>: a \<open>Long\<close> or \<open>null\<close>.\<close>

definition toLongOrNull :: "string \<Rightarrow> int option" where
  "toLongOrNull s =
     (case signed_value 10 s of
        None \<Rightarrow> None
      | Some v \<Rightarrow> if - (2 ^ 63) \<le> v \<and> v < 2 ^ 63 then Some v else None)"

text \<open>\<open>Int.toChar()\<close>: the low 16 bits.\<close>

definition toChar :: "int \<Rightarrow> kchar" where
  "toChar v = word_of_int v"

text \<open>A character of a string that is passed on as it is, as a code unit.\<close>

definition code_unit :: "char \<Rightarrow> kchar" where
  "code_unit c = of_nat (of_char c)"

subsection \<open>\<open>convertHexToString\<close>\<close>

text \<open>
  The loop \<open>for (i in 0 until cleanHex.length step 2)\<close>: \<open>substring(i, i + 2)\<close> throws when
  one character is left, \<open>toInt(16)\<close> throws on a pair that is no numeral.
\<close>

fun hex_pairs :: "string \<Rightarrow> exn + kchar list" where
  "hex_pairs [] = Inr []"
| "hex_pairs [c] = Inl StringIndexOutOfBoundsException"
| "hex_pairs (a # b # rest) =
     (case toInt16 [a, b] of
        Inl e \<Rightarrow> Inl e
      | Inr v \<Rightarrow>
          (case hex_pairs rest of
             Inl e \<Rightarrow> Inl e
           | Inr out \<Rightarrow> Inr (toChar v # out)))"

definition convertHexToString :: "string \<Rightarrow> exn + kchar list" where
  "convertHexToString hex =
     (let cleanHex = (if startsWith hex ''0x'' then drop 2 hex else hex)
      in hex_pairs cleanHex)"

text \<open>\<open>if (raw.startsWith("0x")) convertHexToString(raw) else raw\<close>\<close>

definition clean_field :: "string \<Rightarrow> exn + kchar list" where
  "clean_field raw =
     (if startsWith raw ''0x'' then convertHexToString raw else Inr (map code_unit raw))"

subsection \<open>\<open>getBalance\<close>\<close>

definition balance_request :: "AptosConfig \<Rightarrow> string \<Rightarrow> request" where
  "balance_request cfg address =
     (let resourceType = ''0x1::coin::CoinStore<0x1::aptos_coin::AptosCoin>'';
          url = NODE_URL cfg @ ''/accounts/'' @ address @ ''/resource/'' @ resourceType
      in GET url)"

text \<open>The body of the \<open>try\<close>: a \<open>Long\<close> (an integer in its range) or the exception thrown.\<close>

definition getBalance_try :: "AptosConfig \<Rightarrow> (request \<Rightarrow> http_result) \<Rightarrow> string \<Rightarrow> exn + int" where
  "getBalance_try cfg node address =
     (case node (balance_request cfg address) of
        NetworkError \<Rightarrow> Inl IOException
      | Response isSuccessful b \<Rightarrow>
          if \<not> isSuccessful then Inr 0
          else
            (case new_JSONObject b of
               Inl e \<Rightarrow> Inl e
             | Inr json \<Rightarrow>
                 (case optJSONObject json ''data'' of
                    None \<Rightarrow> Inr 0
                  | Some data \<Rightarrow>
                      (case optJSONObject data ''coin'' of
                         None \<Rightarrow> Inr 0
                       | Some coin \<Rightarrow>
                           (case toLongOrNull (optString coin ''value'' ''0'') of
                              None \<Rightarrow> Inr 0
                            | Some v \<Rightarrow> Inr v)))))"

text \<open>With its \<open>catch (e: Exception)\<close>, which answers \<open>0L\<close>.\<close>

definition getBalance :: "AptosConfig \<Rightarrow> (request \<Rightarrow> http_result) \<Rightarrow> string \<Rightarrow> int" where
  "getBalance cfg node address =
     (case getBalance_try cfg node address of Inl e \<Rightarrow> 0 | Inr v \<Rightarrow> v)"

subsection \<open>\<open>fetchUserMemories\<close>\<close>

record MemoryItem =
  id_field :: "32 word"
  title :: "kchar list"
  date :: string
  ipfsHash :: "kchar list"
  isSecured :: bool

text \<open>
  The loop over the inner array, from index \<open>i\<close>, whose element \<open>getJSONObject(i)\<close> reads
  is the head of the list. The clock is read once in each iteration: \<open>clock i\<close> is the
  reading (a \<open>Long\<close>) in iteration \<open>i\<close>. \<open>Long.toInt()\<close> keeps the low 32 bits.
\<close>

fun memories_from :: "(nat \<Rightarrow> 64 word) \<Rightarrow> nat \<Rightarrow> json list \<Rightarrow> exn + MemoryItem list" where
  "memories_from clock i [] = Inr []"
| "memories_from clock i (x # xs) =
     (case asJSONObject x of
        Inl e \<Rightarrow> Inl e
      | Inr mem \<Rightarrow>
          (let rawTitle = optString mem ''title'' ''Secured Memory'';
               rawHash = optString mem ''ipfs_hash'' ''''
           in case clean_field rawTitle of
                Inl e \<Rightarrow> Inl e
              | Inr cleanTitle \<Rightarrow>
                  (case clean_field rawHash of
                     Inl e \<Rightarrow> Inl e
                   | Inr cleanHash \<Rightarrow>
                       (case memories_from clock (Suc i) xs of
                          Inl e \<Rightarrow> Inl e
                        | Inr items \<Rightarrow>
                            Inr (\<lparr> id_field = ucast (clock i + of_nat i),
                                   title = cleanTitle,
                                   date = ''On-Chain'',
                                   ipfsHash = cleanHash,
                                   isSecured = True \<rparr> # items)))))"

definition view_request :: "AptosConfig \<Rightarrow> string \<Rightarrow> request" where
  "view_request cfg address =
     (let url = NODE_URL cfg @ ''/view'';
          payload = JObj
            [(''function'', JStr (MODULE_ADDRESS cfg @ ''::'' @ MODULE_NAME cfg @ ''::get_memories'')),
             (''type_arguments'', JArr []),
             (''arguments'', JArr [JStr address])]
      in POST url payload)"

definition fetchUserMemories_try ::
  "AptosConfig \<Rightarrow> (request \<Rightarrow> http_result) \<Rightarrow> (nat \<Rightarrow> 64 word) \<Rightarrow> string \<Rightarrow> exn + MemoryItem list" where
  "fetchUserMemories_try cfg node clock address =
     (case node (view_request cfg address) of
        NetworkError \<Rightarrow> Inl IOException
      | Response isSuccessful b \<Rightarrow>
          if \<not> isSuccessful then Inr []
          else
            (case new_JSONArray b of
               Inl e \<Rightarrow> Inl e
             | Inr jsonArray \<Rightarrow>
                 if length jsonArray = 0 then Inr []
                 else
                   (case optJSONArray jsonArray 0 of
                      None \<Rightarrow> Inr []
                    | Some memoriesArray \<Rightarrow> memories_from clock 0 memoriesArray)))"

definition fetchUserMemories ::
  "AptosConfig \<Rightarrow> (request \<Rightarrow> http_result) \<Rightarrow> (nat \<Rightarrow> 64 word) \<Rightarrow> string \<Rightarrow> MemoryItem list" where
  "fetchUserMemories cfg node clock address =
     (case fetchUserMemories_try cfg node clock address of Inl e \<Rightarrow> [] | Inr items \<Rightarrow> items)"

subsection \<open>The decoding the specification describes\<close>

text \<open>
  Two hexadecimal digits at a time, each pair one byte; \<open>None\<close> when a digit is missing
  or a character is no hexadecimal digit.
\<close>

fun hex_bytes :: "string \<Rightarrow> byte list option" where
  "hex_bytes [] = Some []"
| "hex_bytes [c] = None"
| "hex_bytes (a # b # rest) =
     (case (digitOf a 16, digitOf b 16) of
        (Some h, Some l) \<Rightarrow> map_option ((#) (of_nat (16 * h + l))) (hex_bytes rest)
      | _ \<Rightarrow> None)"

text \<open>
  A byte sequence read as UTF-8: its code points, \<open>None\<close> when it is ill-formed (a stray
  or missing continuation byte, an overlong form, a surrogate, a value beyond U+10FFFF).
\<close>

definition is_continuation :: "byte \<Rightarrow> bool" where
  "is_continuation b = (0x80 \<le> unat b \<and> unat b \<le> 0xBF)"

fun utf8_points :: "byte list \<Rightarrow> nat list option" where
  "utf8_points [] = Some []"
| "utf8_points (b0 # bs) =
     (let n0 = unat b0 in
      if n0 < 0x80 then map_option ((#) n0) (utf8_points bs)
      else if 0xC2 \<le> n0 \<and> n0 \<le> 0xDF then
        (case bs of
           b1 # r \<Rightarrow>
             if is_continuation b1
             then map_option ((#) ((n0 - 0xC0) * 64 + (unat b1 - 0x80))) (utf8_points r)
             else None
         | _ \<Rightarrow> None)
      else if 0xE0 \<le> n0 \<and> n0 \<le> 0xEF then
        (case bs of
           b1 # b2 # r \<Rightarrow>
             (let cp = (n0 - 0xE0) * 4096 + (unat b1 - 0x80) * 64 + (unat b2 - 0x80) in
              if is_continuation b1 \<and> is_continuation b2 \<and> 0x800 \<le> cp
                 \<and> \<not> (0xD800 \<le> cp \<and> cp \<le> 0xDFFF)
              then map_option ((#) cp) (utf8_points r)
              else None)
         | _ \<Rightarrow> None)
      else if 0xF0 \<le> n0 \<and> n0 \<le> 0xF4 then
        (case bs of
           b1 # b2 # b3 # r \<Rightarrow>
             (let cp = (n0 - 0xF0) * 262144 + (unat b1 - 0x80) * 4096
                       + (unat b2 - 0x80) * 64 + (unat b3 - 0x80) in
              if is_continuation b1 \<and> is_continuation b2 \<and> is_continuation b3
                 \<and> 0x10000 \<le> cp \<and> cp \<le> 0x10FFFF
              then map_option ((#) cp) (utf8_points r)
              else None)
         | _ \<Rightarrow> None)
      else None)"

text \<open>A code point as a Kotlin string holds it: one code unit, or a surrogate pair.\<close>

definition utf16_units :: "nat \<Rightarrow> kchar list" where
  "utf16_units cp =
     (if cp < 0x10000 then [of_nat cp]
      else [of_nat (0xD800 + (cp - 0x10000) div 1024), of_nat (0xDC00 + (cp - 0x10000) mod 1024)])"

definition utf8_decode :: "byte list \<Rightarrow> kchar list option" where
  "utf8_decode bs = map_option (\<lambda>cps. concat (map utf16_units cps)) (utf8_points bs)"

text \<open>
  A record's text field as the specification decodes it: a field with the prefix \<open>0x\<close> is
  the UTF-8 reading of the bytes its digits denote, any other field is itself.
\<close>

definition spec_decode_field :: "string \<Rightarrow> kchar list option" where
  "spec_decode_field raw =
     (if startsWith raw ''0x''
      then (case hex_bytes (drop 2 raw) of None \<Rightarrow> None | Some bs \<Rightarrow> utf8_decode bs)
      else Some (map code_unit raw))"

section \<open>The wallet's keys (CryptoManager)\<close>

subsection \<open>SHA3-256\<close>

text \<open>
  \<open>MessageDigest.getInstance("SHA3-256")\<close> is the hash function SHA3-256 of FIPS 202: the
  sponge over the permutation Keccak-f[1600], with a rate of 136 bytes, the padding
  \<open>0x06 ... 0x80\<close> and an output of 32 bytes. The state is 25 lanes of 64 bits, lane
  \<open>(x, y)\<close> at index \<open>x + 5 * y\<close>.
\<close>

type_synonym lane = "64 word"

definition keccak_RC :: "lane list" where
  "keccak_RC =
     [0x0000000000000001, 0x0000000000008082, 0x800000000000808A, 0x8000000080008000,
      0x000000000000808B, 0x0000000080000001, 0x8000000080008081, 0x8000000000008009,
      0x000000000000008A, 0x0000000000000088, 0x0000000080008009, 0x000000008000000A,
      0x000000008000808B, 0x800000000000008B, 0x8000000000008089, 0x8000000000008003,
      0x8000000000008002, 0x8000000000000080, 0x000000000000800A, 0x800000008000000A,
      0x8000000080008081, 0x8000000000008080, 0x0000000080000001, 0x8000000080008008]"

definition keccak_ROT :: "nat list" where
  "keccak_ROT =
     [0, 1, 62, 28, 27,
      36, 44, 6, 55, 20,
      3, 10, 43, 25, 39,
      41, 45, 15, 21, 8,
      18, 2, 61, 56, 14]"

definition rotl64 :: "lane \<Rightarrow> nat \<Rightarrow> lane" where
  "rotl64 w n = word_rotl n w"

definition theta :: "lane list \<Rightarrow> lane list" where
  "theta A =
     (let C = map (\<lambda>x. A ! x XOR A ! (x + 5) XOR A ! (x + 10) XOR A ! (x + 15) XOR A ! (x + 20))
                [0..<5];
          D = map (\<lambda>x. C ! ((x + 4) mod 5) XOR rotl64 (C ! ((x + 1) mod 5)) 1) [0..<5]
      in map (\<lambda>i. A ! i XOR D ! (i mod 5)) [0..<25])"

text \<open>
  The steps rho and pi together: the lane \<open>(x, y)\<close>, rotated, moves to \<open>(y, 2x + 3y)\<close>; so
  the lane at \<open>(X, Y)\<close> comes from \<open>x = X + 3Y\<close>, \<open>y = X\<close> (modulo 5).
\<close>

definition rho_pi :: "lane list \<Rightarrow> lane list" where
  "rho_pi A =
     map (\<lambda>j. let X = j mod 5; Y = j div 5; x = (X + 3 * Y) mod 5; y = X
              in rotl64 (A ! (x + 5 * y)) (keccak_ROT ! (x + 5 * y)))
       [0..<25]"

definition chi :: "lane list \<Rightarrow> lane list" where
  "chi B =
     map (\<lambda>j. let x = j mod 5; y = j div 5
              in B ! j XOR (NOT (B ! ((x + 1) mod 5 + 5 * y)) AND B ! ((x + 2) mod 5 + 5 * y)))
       [0..<25]"

definition iota :: "nat \<Rightarrow> lane list \<Rightarrow> lane list" where
  "iota i A = A[0 := A ! 0 XOR keccak_RC ! i]"

definition keccak_round :: "lane list \<Rightarrow> nat \<Rightarrow> lane list" where
  "keccak_round A i = iota i (chi (rho_pi (theta A)))"

definition keccak_f :: "lane list \<Rightarrow> lane list" where
  "keccak_f A = foldl keccak_round A [0..<24]"

text \<open>A lane and its eight bytes, least significant first.\<close>

fun lane_of_bytes :: "byte list \<Rightarrow> lane" where
  "lane_of_bytes [] = 0"
| "lane_of_bytes (b # bs) = ucast b OR push_bit 8 (lane_of_bytes bs)"

definition lane_bytes :: "lane \<Rightarrow> byte list" where
  "lane_bytes w = map (\<lambda>i. ucast (drop_bit (8 * i) w)) [0..<8]"

definition sha3_pad :: "byte list \<Rightarrow> byte list" where
  "sha3_pad m =
     (let q = 136 - length m mod 136
      in if q = 1 then m @ [0x86] else m @ [0x06] @ replicate (q - 2) 0 @ [0x80])"

definition xor_block :: "lane list \<Rightarrow> byte list \<Rightarrow> lane list" where
  "xor_block A blk =
     map (\<lambda>i. if i < 17 then A ! i XOR lane_of_bytes (take 8 (drop (8 * i) blk)) else A ! i)
       [0..<25]"

function absorb :: "lane list \<Rightarrow> byte list \<Rightarrow> lane list" where
  "absorb A bs =
     (if bs = [] then A else absorb (keccak_f (xor_block A (take 136 bs))) (drop 136 bs))"
  by pat_completeness auto
termination
  by (relation "measure (\<lambda>(A, bs). length bs)") auto

declare absorb.simps [simp del]

definition sha3_256 :: "byte list \<Rightarrow> byte list" where
  "sha3_256 m =
     (let A = absorb (replicate 25 0) (sha3_pad m)
      in concat (map (\<lambda>i. lane_bytes (A ! i)) [0..<4]))"

subsection \<open>The address\<close>

text \<open>
  \<open>"%02x".format(it)\<close> for a \<open>Byte\<close>: a negative value has \<open>2^8\<close> added, the value is
  written in hexadecimal with the digits \<open>0\<close> to \<open>9\<close> and \<open>a\<close> to \<open>f\<close>, and the text is
  filled with zeros on the left up to a width of two.
\<close>

function hex_digits :: "nat \<Rightarrow> string" where
  "hex_digits n = (if n < 16 then [hex_digit_char n]
                   else hex_digits (n div 16) @ [hex_digit_char (n mod 16)])"
  by pat_completeness auto
termination
  by (relation "measure id") auto

declare hex_digits.simps [simp del]

definition format_02x :: "byte \<Rightarrow> string" where
  "format_02x b =
     (let v = sint b;
          u = (if v < 0 then v + 2 ^ 8 else v);
          t = hex_digits (nat u)
      in replicate (2 - length t) (CHR ''0'') @ t)"

definition deriveAptosAddress :: "byte list \<Rightarrow> string" where
  "deriveAptosAddress publicKey =
     (let buffer = publicKey @ [0x00];
          hash = sha3_256 buffer
      in ''0x'' @ concat (map format_02x hash))"

text \<open>
  The lowercase hexadecimal encoding of a byte string, as the specification means it: two
  digits for each byte, the high half first.
\<close>

definition hex_lower :: "byte list \<Rightarrow> string" where
  "hex_lower bs =
     concat (map (\<lambda>b. [hex_digit_char (unat b div 16), hex_digit_char (unat b mod 16)]) bs)"

subsection \<open>\<open>android.util.Base64\<close> with \<open>NO_WRAP\<close>\<close>

definition base64_alphabet :: string where
  "base64_alphabet = ''ABCDEFGHIJKLMNOPQRSTUVWXYZabcdefghijklmnopqrstuvwxyz0123456789+/''"

definition base64_char :: "nat \<Rightarrow> char" where
  "base64_char n = base64_alphabet ! n"

text \<open>The encoder: three bytes give four characters; the last group is padded with \<open>=\<close>.\<close>

fun encodeToString :: "byte list \<Rightarrow> string" where
  "encodeToString [] = []"
| "encodeToString [a] =
     [base64_char (unat a div 4), base64_char (unat a mod 4 * 16), CHR ''='', CHR ''='']"
| "encodeToString [a, b] =
     [base64_char (unat a div 4), base64_char (unat a mod 4 * 16 + unat b div 16),
      base64_char (unat b mod 16 * 4), CHR ''='']"
| "encodeToString (a # b # c # rest) =
     [base64_char (unat a div 4), base64_char (unat a mod 4 * 16 + unat b div 16),
      base64_char (unat b mod 16 * 4 + unat c div 64), base64_char (unat c mod 64)]
     @ encodeToString rest"

text \<open>
  The decoder's table: the value of a character of the alphabet, the padding character,
  and every other character, which the decoder skips.
\<close>

datatype base64_symbol = Data nat | Equals | Skip

fun index_of :: "'a \<Rightarrow> 'a list \<Rightarrow> nat option" where
  "index_of x [] = None"
| "index_of x (y # ys) = (if x = y then Some 0 else map_option Suc (index_of x ys))"

definition base64_symbol :: "char \<Rightarrow> base64_symbol" where
  "base64_symbol c =
     (if c = CHR ''='' then Equals
      else case index_of c base64_alphabet of Some n \<Rightarrow> Data n | None \<Rightarrow> Skip)"

text \<open>
  The decoder is a machine with the states 0 to 5, the bits read so far in \<open>v\<close> and the
  bytes written so far in \<open>out\<close>. State 0 to 3: that many characters of a group are read.
  State 4: one more \<open>=\<close> is due. State 5: nothing but skipped characters may follow.
  A character that does not fit is the error state 6 of the source, the exception
  \<open>IllegalArgumentException("bad base-64")\<close>. \<open>(byte)\<close> keeps the low eight bits.
\<close>

fun base64_process :: "nat \<Rightarrow> nat \<Rightarrow> byte list \<Rightarrow> string \<Rightarrow> exn + byte list" where
  "base64_process st v out [] =
     (if st = 0 then Inr out
      else if st = 1 then Inl IllegalArgumentException
      else if st = 2 then Inr (out @ [of_nat (v div 16)])
      else if st = 3 then Inr (out @ [of_nat (v div 1024), of_nat (v div 4)])
      else if st = 4 then Inl IllegalArgumentException
      else Inr out)"
| "base64_process st v out (c # cs) =
     (case base64_symbol c of
        Skip \<Rightarrow> base64_process st v out cs
      | Data d \<Rightarrow>
          if st = 0 then base64_process 1 d out cs
          else if st = 1 then base64_process 2 (v * 64 + d) out cs
          else if st = 2 then base64_process 3 (v * 64 + d) out cs
          else if st = 3 then
            (let v' = v * 64 + d
             in base64_process 0 v'
                  (out @ [of_nat (v' div 65536), of_nat (v' div 256), of_nat v']) cs)
          else Inl IllegalArgumentException
      | Equals \<Rightarrow>
          if st = 2 then base64_process 4 v (out @ [of_nat (v div 16)]) cs
          else if st = 3 then base64_process 5 v (out @ [of_nat (v div 1024), of_nat (v div 4)]) cs
          else if st = 4 then base64_process 5 v out cs
          else Inl IllegalArgumentException)"

definition base64_decode :: "string \<Rightarrow> exn + byte list" where
  "base64_decode str = base64_process 0 0 [] str"

subsection \<open>The encrypted preferences, the libraries and the random source\<close>

text \<open>
  \<open>EncryptedSharedPreferences\<close> is a store of strings under names. The code reaches the
  BIP-39 library (\<open>Mnemonics.MnemonicCode\<close>, \<open>toSeed\<close>) and the Ed25519 key generation of
  Bouncy Castle; both are outside the repository and are parameters: \<open>toSeed\<close> first
  validates the phrase (the words and the checksum) and throws when it is not valid, then
  derives the seed from the phrase; \<open>generatePublicKey\<close> is a function of the private key.
  A random source is the sequence of the bytes it yields.
\<close>

type_synonym prefs = "string \<Rightarrow> string option"

definition KEY_PRIVATE_KEY :: string where "KEY_PRIVATE_KEY = ''private_key''"
definition KEY_PUBLIC_KEY :: string where "KEY_PUBLIC_KEY = ''public_key''"
definition KEY_ADDRESS :: string where "KEY_ADDRESS = ''wallet_address''"
definition KEY_MNEMONIC :: string where "KEY_MNEMONIC = ''mnemonic''"
definition KEY_ENCRYPTION_KEY :: string where "KEY_ENCRYPTION_KEY = ''encryption_key''"

record libraries =
  bip39_valid :: "string \<Rightarrow> bool"
  bip39_seed :: "string \<Rightarrow> byte list"
  ed25519_public :: "byte list \<Rightarrow> byte list"

type_synonym random = "nat \<Rightarrow> byte"

definition toSeed :: "libraries \<Rightarrow> string \<Rightarrow> exn + byte list" where
  "toSeed lib phrase =
     (if bip39_valid lib phrase then Inr (bip39_seed lib phrase) else Inl MnemonicException)"

text \<open>\<open>KeyGenerator.getInstance("AES")\<close>, \<open>init(256, SecureRandom())\<close>: 32 random bytes.\<close>

definition generateEncryptionKey :: "random \<Rightarrow> byte list" where
  "generateEncryptionKey rnd = map rnd [0..<32]"

text \<open>\<open>seed.copyOf(32)\<close>: the first 32 bytes, filled with zeros when there are fewer.\<close>

definition copyOf :: "byte list \<Rightarrow> nat \<Rightarrow> byte list" where
  "copyOf xs n = take n xs @ replicate (n - length xs) 0"

text \<open>The pair \<open>(private, public)\<close>, each as its \<open>encoded\<close> bytes.\<close>

definition generateKeyPairFromSeed :: "libraries \<Rightarrow> byte list \<Rightarrow> byte list \<times> byte list" where
  "generateKeyPairFromSeed lib seed =
     (let privateKeySeed = copyOf seed 32
      in (privateKeySeed, ed25519_public lib privateKeySeed))"

subsection \<open>Normalising a phrase\<close>

text \<open>
  The code runs on Android. \<open>Char.isWhitespace\<close> (used by \<open>trim\<close>) is
  \<open>Character.isWhitespace\<close> or \<open>Character.isSpaceChar\<close>. A regular expression there is one
  of ICU, whose class \<open>\s\<close> is the Unicode property White_Space: among the characters of
  the model U+0009 to U+000D, U+0020, U+0085 and U+00A0. \<open>lowercase\<close> is the lower case of
  the root locale.
\<close>

definition isWhitespace :: "char \<Rightarrow> bool" where
  "isWhitespace c =
     (let n = (of_char c :: nat)
      in (9 \<le> n \<and> n \<le> 13) \<or> (28 \<le> n \<and> n \<le> 32) \<or> n = 160)"

definition regex_space :: "char \<Rightarrow> bool" where
  "regex_space c =
     (let n = (of_char c :: nat)
      in (9 \<le> n \<and> n \<le> 13) \<or> n = 32 \<or> n = 133 \<or> n = 160)"

definition lowercase_char :: "char \<Rightarrow> char" where
  "lowercase_char c =
     (let n = (of_char c :: nat)
      in if (65 \<le> n \<and> n \<le> 90) \<or> (192 \<le> n \<and> n \<le> 214) \<or> (216 \<le> n \<and> n \<le> 222)
         then char_of (n + 32) else c)"

definition trim :: "string \<Rightarrow> string" where
  "trim s = rev (dropWhile isWhitespace (rev (dropWhile isWhitespace s)))"

definition lowercase :: "string \<Rightarrow> string" where
  "lowercase s = map lowercase_char s"

text \<open>\<open>replace(Regex("\\s+"), " ")\<close>: every maximal run of \<open>\s\<close> becomes one space.\<close>

function collapse_spaces :: "string \<Rightarrow> string" where
  "collapse_spaces [] = []"
| "collapse_spaces (c # cs) =
     (if regex_space c then CHR '' '' # collapse_spaces (dropWhile regex_space cs)
      else c # collapse_spaces cs)"
  by pat_completeness auto
termination
  by (relation "measure length") (auto simp: length_dropWhile_le less_Suc_eq_le)

text \<open>\<open>split(" ")\<close>: the pieces between the spaces, empty pieces included.\<close>

fun split_on :: "char \<Rightarrow> string \<Rightarrow> string list" where
  "split_on d [] = [[]]"
| "split_on d (c # cs) =
     (if c = d then [] # split_on d cs
      else (case split_on d cs of w # ws \<Rightarrow> (c # w) # ws | [] \<Rightarrow> [[c]]))"

definition cleanMnemonic_of :: "string \<Rightarrow> string" where
  "cleanMnemonic_of rawMnemonic = collapse_spaces (lowercase (trim rawMnemonic))"

subsection \<open>\<open>importWalletFromMnemonic\<close>\<close>

text \<open>
  The body of the \<open>try\<close>: the preferences afterwards, and the address returned or the
  exception thrown. The preferences are written once, at the end.
\<close>

definition importWallet_try :: "libraries \<Rightarrow> random \<Rightarrow> prefs \<Rightarrow> string \<Rightarrow> prefs \<times> (exn + string)" where
  "importWallet_try lib rnd sp rawMnemonic =
     (let cleanMnemonic = cleanMnemonic_of rawMnemonic;
          words = split_on (CHR '' '') cleanMnemonic
      in if length words \<noteq> 12 \<and> length words \<noteq> 24 then (sp, Inl IllegalArgumentException)
         else
           (case toSeed lib cleanMnemonic of
              Inl e \<Rightarrow> (sp, Inl e)
            | Inr seed \<Rightarrow>
                (let (privateKey, publicKey) = generateKeyPairFromSeed lib seed;
                     address = deriveAptosAddress publicKey;
                     encryptionKey = generateEncryptionKey rnd
                 in (sp(KEY_PRIVATE_KEY \<mapsto> encodeToString privateKey,
                        KEY_PUBLIC_KEY \<mapsto> encodeToString publicKey,
                        KEY_ADDRESS \<mapsto> address,
                        KEY_MNEMONIC \<mapsto> cleanMnemonic,
                        KEY_ENCRYPTION_KEY \<mapsto> encodeToString encryptionKey),
                     Inr address))))"

text \<open>With its \<open>catch (e: Exception)\<close>, which throws the one exception of the import.\<close>

definition importWalletFromMnemonic ::
  "libraries \<Rightarrow> random \<Rightarrow> prefs \<Rightarrow> string \<Rightarrow> prefs \<times> (exn + string)" where
  "importWalletFromMnemonic lib rnd sp rawMnemonic =
     (case importWallet_try lib rnd sp rawMnemonic of
        (sp', Inl e) \<Rightarrow> (sp', Inl InvalidRecoveryPhrase)
      | (sp', Inr address) \<Rightarrow> (sp', Inr address))"

subsection \<open>AES\<close>

text \<open>
  \<open>Cipher.getInstance("AES/GCM/NoPadding")\<close> is the block cipher AES (FIPS 197) in the
  Galois/Counter mode (NIST SP 800-38D). The cipher's state is 16 bytes, column after
  column. A key has 16, 24 or 32 bytes.
\<close>

definition aes_sbox :: "byte list" where
  "aes_sbox =
     [0x63, 0x7c, 0x77, 0x7b, 0xf2, 0x6b, 0x6f, 0xc5, 0x30, 0x01, 0x67, 0x2b, 0xfe, 0xd7, 0xab, 0x76,
      0xca, 0x82, 0xc9, 0x7d, 0xfa, 0x59, 0x47, 0xf0, 0xad, 0xd4, 0xa2, 0xaf, 0x9c, 0xa4, 0x72, 0xc0,
      0xb7, 0xfd, 0x93, 0x26, 0x36, 0x3f, 0xf7, 0xcc, 0x34, 0xa5, 0xe5, 0xf1, 0x71, 0xd8, 0x31, 0x15,
      0x04, 0xc7, 0x23, 0xc3, 0x18, 0x96, 0x05, 0x9a, 0x07, 0x12, 0x80, 0xe2, 0xeb, 0x27, 0xb2, 0x75,
      0x09, 0x83, 0x2c, 0x1a, 0x1b, 0x6e, 0x5a, 0xa0, 0x52, 0x3b, 0xd6, 0xb3, 0x29, 0xe3, 0x2f, 0x84,
      0x53, 0xd1, 0x00, 0xed, 0x20, 0xfc, 0xb1, 0x5b, 0x6a, 0xcb, 0xbe, 0x39, 0x4a, 0x4c, 0x58, 0xcf,
      0xd0, 0xef, 0xaa, 0xfb, 0x43, 0x4d, 0x33, 0x85, 0x45, 0xf9, 0x02, 0x7f, 0x50, 0x3c, 0x9f, 0xa8,
      0x51, 0xa3, 0x40, 0x8f, 0x92, 0x9d, 0x38, 0xf5, 0xbc, 0xb6, 0xda, 0x21, 0x10, 0xff, 0xf3, 0xd2,
      0xcd, 0x0c, 0x13, 0xec, 0x5f, 0x97, 0x44, 0x17, 0xc4, 0xa7, 0x7e, 0x3d, 0x64, 0x5d, 0x19, 0x73,
      0x60, 0x81, 0x4f, 0xdc, 0x22, 0x2a, 0x90, 0x88, 0x46, 0xee, 0xb8, 0x14, 0xde, 0x5e, 0x0b, 0xdb,
      0xe0, 0x32, 0x3a, 0x0a, 0x49, 0x06, 0x24, 0x5c, 0xc2, 0xd3, 0xac, 0x62, 0x91, 0x95, 0xe4, 0x79,
      0xe7, 0xc8, 0x37, 0x6d, 0x8d, 0xd5, 0x4e, 0xa9, 0x6c, 0x56, 0xf4, 0xea, 0x65, 0x7a, 0xae, 0x08,
      0xba, 0x78, 0x25, 0x2e, 0x1c, 0xa6, 0xb4, 0xc6, 0xe8, 0xdd, 0x74, 0x1f, 0x4b, 0xbd, 0x8b, 0x8a,
      0x70, 0x3e, 0xb5, 0x66, 0x48, 0x03, 0xf6, 0x0e, 0x61, 0x35, 0x57, 0xb9, 0x86, 0xc1, 0x1d, 0x9e,
      0xe1, 0xf8, 0x98, 0x11, 0x69, 0xd9, 0x8e, 0x94, 0x9b, 0x1e, 0x87, 0xe9, 0xce, 0x55, 0x28, 0xdf,
      0x8c, 0xa1, 0x89, 0x0d, 0xbf, 0xe6, 0x42, 0x68, 0x41, 0x99, 0x2d, 0x0f, 0xb0, 0x54, 0xbb, 0x16]"

definition aes_rcon :: "byte list" where
  "aes_rcon = [0x01, 0x02, 0x04, 0x08, 0x10, 0x20, 0x40, 0x80, 0x1b, 0x36]"

definition sub_byte :: "byte \<Rightarrow> byte" where
  "sub_byte b = aes_sbox ! unat b"

definition xtime :: "byte \<Rightarrow> byte" where
  "xtime b = push_bit 1 b XOR (if bit b 7 then 0x1b else 0)"

definition sub_bytes :: "byte list \<Rightarrow> byte list" where
  "sub_bytes s = map sub_byte s"

definition shift_rows :: "byte list \<Rightarrow> byte list" where
  "shift_rows s = map (\<lambda>i. s ! (i mod 4 + 4 * ((i div 4 + i mod 4) mod 4))) [0..<16]"

definition mix_column :: "byte \<Rightarrow> byte \<Rightarrow> byte \<Rightarrow> byte \<Rightarrow> byte list" where
  "mix_column a0 a1 a2 a3 =
     [xtime a0 XOR (xtime a1 XOR a1) XOR a2 XOR a3,
      a0 XOR xtime a1 XOR (xtime a2 XOR a2) XOR a3,
      a0 XOR a1 XOR xtime a2 XOR (xtime a3 XOR a3),
      (xtime a0 XOR a0) XOR a1 XOR a2 XOR xtime a3]"

definition mix_columns :: "byte list \<Rightarrow> byte list" where
  "mix_columns s =
     concat (map (\<lambda>c. mix_column (s ! (4 * c)) (s ! (4 * c + 1)) (s ! (4 * c + 2)) (s ! (4 * c + 3)))
               [0..<4])"

definition add_round_key :: "byte list \<Rightarrow> byte list \<Rightarrow> byte list" where
  "add_round_key s rk = map (\<lambda>i. s ! i XOR rk ! i) [0..<16]"

text \<open>The key expansion: the words \<open>w\<close> so far, and \<open>n\<close> more to come.\<close>

definition xor_bytes :: "byte list \<Rightarrow> byte list \<Rightarrow> byte list" where
  "xor_bytes xs ys = map (\<lambda>(x, y). x XOR y) (zip xs ys)"

definition rot_word :: "byte list \<Rightarrow> byte list" where
  "rot_word t = drop 1 t @ take 1 t"

fun key_words :: "nat \<Rightarrow> nat \<Rightarrow> byte list list \<Rightarrow> byte list list" where
  "key_words Nk 0 w = w"
| "key_words Nk (Suc n) w =
     (let i = length w;
          t = w ! (i - 1);
          t' = (if i mod Nk = 0
                then xor_bytes (sub_bytes (rot_word t)) [aes_rcon ! (i div Nk - 1), 0, 0, 0]
                else if Nk > 6 \<and> i mod Nk = 4 then sub_bytes t
                else t)
      in key_words Nk n (w @ [xor_bytes (w ! (i - Nk)) t']))"

definition key_expansion :: "byte list \<Rightarrow> byte list list" where
  "key_expansion key =
     (let Nk = length key div 4;
          Nr = Nk + 6
      in key_words Nk (4 * (Nr + 1) - Nk) (map (\<lambda>i. take 4 (drop (4 * i) key)) [0..<Nk]))"

definition round_key :: "byte list list \<Rightarrow> nat \<Rightarrow> byte list" where
  "round_key w r = concat (take 4 (drop (4 * r) w))"

definition aes_encrypt :: "byte list \<Rightarrow> byte list \<Rightarrow> byte list" where
  "aes_encrypt key blk =
     (let w = key_expansion key;
          Nr = length key div 4 + 6;
          s0 = add_round_key blk (round_key w 0);
          s = foldl (\<lambda>s r. add_round_key (mix_columns (shift_rows (sub_bytes s))) (round_key w r))
                s0 [1..<Nr]
      in add_round_key (shift_rows (sub_bytes s)) (round_key w Nr))"

subsection \<open>The Galois/Counter mode\<close>

text \<open>
  A block of 16 bytes is an element of the field of \<open>2^128\<close> elements; as a word, its first
  byte is the most significant. The product follows the algorithm of the standard: the
  bits of \<open>X\<close> from the first, \<open>V\<close> shifted towards the last bit and reduced by \<open>R\<close>.
\<close>

type_synonym gf128 = "128 word"

definition block_word :: "byte list \<Rightarrow> gf128" where
  "block_word bs = foldl (\<lambda>acc b. push_bit 8 acc OR ucast b) 0 bs"

definition word_block :: "gf128 \<Rightarrow> byte list" where
  "word_block w = map (\<lambda>i. ucast (drop_bit (8 * (15 - i)) w)) [0..<16]"

definition gf_R :: gf128 where
  "gf_R = push_bit 120 0xE1"

definition gf_step :: "gf128 \<Rightarrow> gf128 \<times> gf128 \<Rightarrow> nat \<Rightarrow> gf128 \<times> gf128" where
  "gf_step X ZV i =
     (case ZV of (Z, V) \<Rightarrow>
        (if bit X (127 - i) then Z XOR V else Z,
         if bit V 0 then drop_bit 1 V XOR gf_R else drop_bit 1 V))"

definition gf_mult :: "gf128 \<Rightarrow> gf128 \<Rightarrow> gf128" where
  "gf_mult X Y = fst (foldl (gf_step X) (0, Y) [0..<128])"

function blocks16 :: "byte list \<Rightarrow> byte list list" where
  "blocks16 bs = (if bs = [] then [] else take 16 bs # blocks16 (drop 16 bs))"
  by pat_completeness auto
termination
  by (relation "measure length") auto

declare blocks16.simps [simp del]

definition pad16 :: "byte list \<Rightarrow> byte list" where
  "pad16 bs = bs @ replicate ((16 - length bs mod 16) mod 16) 0"

definition ghash :: "gf128 \<Rightarrow> byte list \<Rightarrow> gf128" where
  "ghash H bs = foldl (\<lambda>Y blk. gf_mult (Y XOR block_word blk) H) 0 (blocks16 bs)"

text \<open>The length of a byte string in bits, as 8 bytes, the most significant first.\<close>

definition bit_length64 :: "byte list \<Rightarrow> byte list" where
  "bit_length64 bs =
     map (\<lambda>i. ucast (drop_bit (8 * (7 - i)) (of_nat (8 * length bs) :: 64 word))) [0..<8]"

text \<open>\<open>inc32\<close>: the last four bytes of a counter block, as a number, plus one modulo \<open>2^32\<close>.\<close>

definition inc32 :: "byte list \<Rightarrow> byte list" where
  "inc32 cb =
     (let n = (foldl (\<lambda>acc b. push_bit 8 acc OR ucast b) 0 (drop 12 cb) :: 32 word) + 1
      in take 12 cb @ map (\<lambda>i. ucast (drop_bit (8 * (3 - i)) n)) [0..<4])"

text \<open>The first \<open>n\<close> bytes of the key stream that starts at the counter block \<open>cb\<close>.\<close>

function keystream :: "byte list \<Rightarrow> byte list \<Rightarrow> nat \<Rightarrow> byte list" where
  "keystream key cb n =
     (if n = 0 then [] else take n (aes_encrypt key cb) @ keystream key (inc32 cb) (n - 16))"
  by pat_completeness auto
termination
  by (relation "measure (\<lambda>(key, cb, n). n)") auto

declare keystream.simps [simp del]

definition gctr :: "byte list \<Rightarrow> byte list \<Rightarrow> byte list \<Rightarrow> byte list" where
  "gctr key icb xs = xor_bytes xs (keystream key icb (length xs))"

definition gcm_hash_key :: "byte list \<Rightarrow> gf128" where
  "gcm_hash_key key = block_word (aes_encrypt key (replicate 16 0))"

definition gcm_j0 :: "byte list \<Rightarrow> byte list \<Rightarrow> byte list" where
  "gcm_j0 key nonce =
     (if length nonce = 12 then nonce @ [0, 0, 0, 1]
      else word_block (ghash (gcm_hash_key key) (pad16 nonce @ replicate 8 0 @ bit_length64 nonce)))"

text \<open>The tag of 128 bits over the ciphertext \<open>c\<close>, there being no additional data.\<close>

definition gcm_tag :: "byte list \<Rightarrow> byte list \<Rightarrow> byte list \<Rightarrow> byte list" where
  "gcm_tag key nonce c =
     (let S = ghash (gcm_hash_key key) (pad16 c @ bit_length64 [] @ bit_length64 c)
      in gctr key (gcm_j0 key nonce) (word_block S))"

text \<open>\<open>doFinal\<close> when encrypting: the ciphertext, then the tag.\<close>

definition gcm_encrypt :: "byte list \<Rightarrow> byte list \<Rightarrow> byte list \<Rightarrow> byte list" where
  "gcm_encrypt key nonce plain =
     (let c = gctr key (inc32 (gcm_j0 key nonce)) plain
      in c @ gcm_tag key nonce c)"

text \<open>
  \<open>doFinal\<close> when decrypting: the last 16 bytes are the tag; the plain text is returned
  only when the tag is the one computed, else \<open>AEADBadTagException\<close> is thrown.
\<close>

definition gcm_decrypt :: "byte list \<Rightarrow> byte list \<Rightarrow> byte list \<Rightarrow> exn + byte list" where
  "gcm_decrypt key nonce input =
     (if length input < 16 then Inl AEADBadTagException
      else
        (let c = take (length input - 16) input;
             t = drop (length input - 16) input
         in if gcm_tag key nonce c = t then Inr (gctr key (inc32 (gcm_j0 key nonce)) c)
            else Inl AEADBadTagException))"

subsection \<open>\<open>encryptData\<close> and \<open>decryptData\<close>\<close>

record EncryptedData =
  iv :: string
  data :: string

text \<open>
  \<open>getEncryptionKey\<close>: the stored key, or a new one that is stored at once. \<open>SecretKeySpec\<close>
  throws on an empty key.
\<close>

definition getEncryptionKey :: "random \<Rightarrow> prefs \<Rightarrow> prefs \<times> (exn + byte list)" where
  "getEncryptionKey rnd sp =
     (case sp KEY_ENCRYPTION_KEY of
        Some encoded \<Rightarrow>
          (case base64_decode encoded of
             Inl e \<Rightarrow> (sp, Inl e)
           | Inr keyBytes \<Rightarrow>
               if keyBytes = [] then (sp, Inl IllegalArgumentException) else (sp, Inr keyBytes))
      | None \<Rightarrow>
          (let key = generateEncryptionKey rnd
           in (sp(KEY_ENCRYPTION_KEY \<mapsto> encodeToString key), Inr key)))"

definition valid_key_size :: "byte list \<Rightarrow> bool" where
  "valid_key_size key = (length key = 16 \<or> length key = 24 \<or> length key = 32)"

text \<open>
  \<open>encryptData\<close>: \<open>rnd_key\<close> is the random source of the key generator, \<open>rnd_iv\<close> the one
  from which the cipher, initialised without parameters, draws its 12 bytes.
\<close>

definition encryptData ::
  "random \<Rightarrow> random \<Rightarrow> prefs \<Rightarrow> byte list \<Rightarrow> prefs \<times> (exn + EncryptedData)" where
  "encryptData rnd_key rnd_iv sp plain =
     (case getEncryptionKey rnd_key sp of
        (sp', Inl e) \<Rightarrow> (sp', Inl e)
      | (sp', Inr secretKey) \<Rightarrow>
          if \<not> valid_key_size secretKey then (sp', Inl InvalidKeyException)
          else
            (let nonce = map rnd_iv [0..<12];
                 encryptedBytes = gcm_encrypt secretKey nonce plain
             in (sp', Inr \<lparr> iv = encodeToString nonce, data = encodeToString encryptedBytes \<rparr>)))"

definition decryptData ::
  "random \<Rightarrow> prefs \<Rightarrow> EncryptedData \<Rightarrow> prefs \<times> (exn + byte list)" where
  "decryptData rnd_key sp encryptedData =
     (case getEncryptionKey rnd_key sp of
        (sp', Inl e) \<Rightarrow> (sp', Inl e)
      | (sp', Inr secretKey) \<Rightarrow>
          (case base64_decode (iv encryptedData) of
             Inl e \<Rightarrow> (sp', Inl e)
           | Inr nonce \<Rightarrow>
               (case base64_decode (data encryptedData) of
                  Inl e \<Rightarrow> (sp', Inl e)
                | Inr encryptedBytes \<Rightarrow>
                    if \<not> valid_key_size secretKey then (sp', Inl InvalidKeyException)
                    else if nonce = [] then (sp', Inl InvalidAlgorithmParameterException)
                    else (sp', gcm_decrypt secretKey nonce encryptedBytes))))"

section \<open>Values for the witnesses\<close>

text \<open>
  Two random sources, and one instance of the libraries, which knows a single phrase: it
  accepts that phrase only, and gives the seed that BIP-39 derives from it (with no
  passphrase) and the Ed25519 public key of the first 32 bytes of that seed.
\<close>

definition example_random :: random where
  "example_random i = of_nat (7 * i + 1)"

definition other_random :: random where
  "other_random i = of_nat (3 * i + 2)"

definition example_seed :: "byte list" where
  "example_seed =
     [0x87, 0x83, 0x86, 0xef, 0xb7, 0x88, 0x45, 0xb3, 0x35, 0x5b, 0xd1, 0x5e, 0xa4, 0xd3, 0x9e, 0xf9,
      0x7d, 0x17, 0x9c, 0xb7, 0x12, 0xb7, 0x7d, 0x5c, 0x12, 0xb6, 0xbe, 0x41, 0x5f, 0xff, 0xef, 0xfe,
      0x5f, 0x37, 0x7b, 0xa0, 0x2b, 0xf3, 0xf8, 0x54, 0x4a, 0xb8, 0x00, 0xb9, 0x55, 0xe5, 0x1f, 0xbf,
      0xf0, 0x98, 0x28, 0xf6, 0x82, 0x05, 0x2a, 0x20, 0xfa, 0xa6, 0xad, 0xdb, 0xbd, 0xdf, 0xb0, 0x96]"

definition example_public :: "byte list" where
  "example_public =
     [0xc6, 0xf2, 0xac, 0x55, 0x98, 0x97, 0x0c, 0x79, 0x63, 0x37, 0x14, 0xd3, 0xeb, 0x5c, 0x34, 0xd7,
      0xbf, 0xc3, 0xe9, 0x2d, 0xa5, 0x8c, 0x73, 0x54, 0xb3, 0x79, 0x96, 0xd9, 0xa4, 0xaf, 0x3a, 0xb2]"

definition example_libraries :: libraries where
  "example_libraries =
     \<lparr> bip39_valid = (\<lambda>phrase. phrase =
          ''legal winner thank year wave sausage worth useful legal winner thank yellow''),
       bip39_seed = (\<lambda>phrase. example_seed),
       ed25519_public = (\<lambda>private. example_public) \<rparr>"

text \<open>
  The phrase as it may be pasted: capitals, spaces at both ends, and between its words
  one space, two spaces, a no-break space (U+00A0) or a tabulator.
\<close>

definition example_phrase :: string where
  "example_phrase =
     ''  Legal winner  THANK'' @ [CHR 0xA0] @ ''year wave sausage worth useful legal''
     @ [CHR 0x09] @ ''winner thank yellow ''"

section \<open>Theorems\<close>

subsection \<open>The challenge message\<close>

text \<open>
  C7. For every address and every clock reading, the challenge message of
  \<open>generateAuthMessage\<close> is the specification's template with \<open><App>\<close> replaced by the
  application's name, \<open><address>\<close> by the address as given and \<open><timestampMs>\<close> by the decimal
  numeral of the clock reading; nothing else in it varies.
\<close>

theorem generateAuthMessage_is_template:
  "generateAuthMessage now address =
     fill_template [(''<App>'', ''LifeVault''), (''<address>'', address),
                    (''<timestampMs>'', number_toString now)] challenge_template"
  by (simp add: generateAuthMessage_def fill_template_def challenge_template_def
      startsWith_def LF_def)

subsection \<open>Decoding a record's text fields\<close>

lemma digitOf_16_bound: "digitOf c 16 = Some d \<Longrightarrow> d < 16 \<and> 48 \<le> (of_char c :: nat)"
  by (auto simp: digitOf_def Let_def split: if_splits)

lemma toInt16_pair:
  assumes "digitOf a 16 = Some h" and "digitOf b 16 = Some l"
  shows "toInt16 [a, b] = Inr (int (16 * h + l))"
proof -
  from assms have "h < 16" "l < 16" "48 \<le> (of_char a :: nat)"
    by (auto dest: digitOf_16_bound)
  then show ?thesis using assms
    by (simp add: toInt16_def signed_value_def mult.commute)
qed

lemma toChar_byte: "n < 256 \<Longrightarrow> toChar (int n) = ucast (of_nat n :: byte)"
  unfolding toChar_def
  by (simp add: unsigned_of_nat take_bit_nat_eq_self)

lemma hex_pairs_bytes:
  "hex_bytes payload = Some bs \<Longrightarrow> hex_pairs payload = Inr (map ucast bs)"
proof (induction payload arbitrary: bs rule: hex_bytes.induct)
  case 1
  then show ?case by simp
next
  case (2 c)
  then show ?case by simp
next
  case (3 a b rest)
  from "3.prems" obtain h l bs' where
    h: "digitOf a 16 = Some h" and l: "digitOf b 16 = Some l"
    and r: "hex_bytes rest = Some bs'" and bs: "bs = of_nat (16 * h + l) # bs'"
    by (auto split: option.splits)
  from h l have "16 * h + l < 256"
    by (auto dest!: digitOf_16_bound)
  with "3.IH" h l r bs show ?case
    by (simp add: toInt16_pair toChar_byte del: of_nat_add of_nat_mult)
qed

lemma utf8_points_ascii:
  "\<forall>b \<in> set bs. b < 0x80 \<Longrightarrow> utf8_points bs = Some (map unat bs)"
  by (induction bs) (auto simp: word_less_nat_alt)

lemma utf8_decode_ascii:
  assumes "\<forall>b \<in> set bs. b < 0x80"
  shows "utf8_decode bs = Some (map ucast bs)"
proof -
  have "concat (map utf16_units (map unat bs)) = map ucast bs"
    by (induction bs) (auto simp: utf16_units_def intro: order_less_trans [OF unsigned_less])
  then show ?thesis using assms
    by (simp add: utf8_decode_def utf8_points_ascii)
qed

text \<open>
  What \<open>convertHexToString\<close> computes. A field without the prefix \<open>0x\<close> is passed on as it
  is. A field \<open>0x\<close> followed by pairs of hexadecimal digits becomes one character for each
  pair, the character whose code is the pair's byte; where every byte is below \<open>0x80\<close> that
  is the UTF-8 reading of the bytes. \<open>0x74657374\<close> gives \<open>test\<close> and \<open>0x48656c6c6f\<close> gives
  \<open>Hello\<close>.
\<close>

lemma clean_field_bytewise:
  "(\<not> startsWith raw ''0x'' \<longrightarrow> clean_field raw = Inr (map code_unit raw)) \<and>
   (hex_bytes payload = Some bs \<longrightarrow>
      clean_field (''0x'' @ payload) = Inr (map ucast bs) \<and>
      ((\<forall>b \<in> set bs. b < 0x80) \<longrightarrow> spec_decode_field (''0x'' @ payload) = Some (map ucast bs))) \<and>
   clean_field ''0x74657374'' = Inr (map code_unit ''test'') \<and>
   clean_field ''0x48656c6c6f'' = Inr (map code_unit ''Hello'')"
proof (intro conjI impI)
  show "clean_field raw = Inr (map code_unit raw)" if "\<not> startsWith raw ''0x''"
    using that by (simp add: clean_field_def)
  show "clean_field (''0x'' @ payload) = Inr (map ucast bs)" if "hex_bytes payload = Some bs"
    using that by (simp add: clean_field_def convertHexToString_def startsWith_def hex_pairs_bytes)
  show "spec_decode_field (''0x'' @ payload) = Some (map ucast bs)"
    if "hex_bytes payload = Some bs" "\<forall>b \<in> set bs. b < 0x80"
    using that by (simp add: spec_decode_field_def startsWith_def utf8_decode_ascii)
  show "clean_field ''0x74657374'' = Inr (map code_unit ''test'')"
    by (simp add: clean_field_def convertHexToString_def startsWith_def toInt16_def
        signed_value_def digitOf_def toChar_def code_unit_def)
  show "clean_field ''0x48656c6c6f'' = Inr (map code_unit ''Hello'')"
    by (simp add: clean_field_def convertHexToString_def startsWith_def toInt16_def
        signed_value_def digitOf_def toChar_def code_unit_def)
qed

text \<open>
  C4. The field \<open>0xc3a9\<close> holds the two bytes of the UTF-8 form of U+00E9. Decoded as the
  specification says, it is the one character U+00E9; \<open>convertHexToString\<close> returns the
  two characters U+00C3 and U+00A9.
\<close>

theorem clean_field_not_utf8:
  "spec_decode_field ''0xc3a9'' = Some [0xE9] \<and>
   clean_field ''0xc3a9'' = Inr [0xC3, 0xA9] \<and>
   clean_field ''0xc3a9'' \<noteq> Inr [0xE9]"
  by (simp add: spec_decode_field_def startsWith_def digitOf_def utf8_decode_def
      is_continuation_def utf16_units_def clean_field_def convertHexToString_def
      toInt16_def signed_value_def toChar_def)

subsection \<open>Balance and records on absence\<close>

text \<open>
  C8. When the node's answer is not a success, or it is a success whose JSON has no
  \<open>data\<close> object or whose \<open>data\<close> has no \<open>coin\<close> object, \<open>getBalance\<close> returns 0, and it does so
  without an exception being thrown inside it.
\<close>

theorem getBalance_zero_on_absence:
  assumes "node (balance_request cfg address) = Response ok b"
    and "\<not> ok \<or> (\<exists>ms. new_JSONObject b = Inr ms \<and>
            (optJSONObject ms ''data'' = None \<or>
             (\<exists>d. optJSONObject ms ''data'' = Some d \<and> optJSONObject d ''coin'' = None)))"
  shows "getBalance_try cfg node address = Inr 0 \<and> getBalance cfg node address = 0"
  using assms by (auto simp: getBalance_def getBalance_try_def)

theorem getBalance_zero_on_absence_witness:
  "getBalance_try \<lparr>NODE_URL = ''https://node/v1'', MODULE_ADDRESS = ''0x1'', MODULE_NAME = ''vault''\<rparr>
      (\<lambda>r. Response True (Parsed (JObj [(''type'', JStr ''0x1::account::Account''), (''data'', JObj [])])))
      ''0xabc'' = Inr 0 \<and>
   getBalance \<lparr>NODE_URL = ''https://node/v1'', MODULE_ADDRESS = ''0x1'', MODULE_NAME = ''vault''\<rparr>
      (\<lambda>r. Response True (Parsed (JObj [(''type'', JStr ''0x1::account::Account''), (''data'', JObj [])])))
      ''0xabc'' = 0"
  by (rule getBalance_zero_on_absence [where ok = True and
        b = "Parsed (JObj [(''type'', JStr ''0x1::account::Account''), (''data'', JObj [])])"])
     (simp_all add: new_JSONObject_def optJSONObject_def)

text \<open>
  C9. When the view call succeeds and its result is an empty outer array, or an outer
  array whose first element is no array, or one whose first element is the empty array
  (as in \<open>[[]]\<close>), \<open>fetchUserMemories\<close> returns the empty list, and it does so without an
  exception being thrown inside it.
\<close>

theorem fetchUserMemories_empty:
  assumes "node (view_request cfg address) = Response True b"
    and "new_JSONArray b = Inr arr"
    and "arr = [] \<or> optJSONArray arr 0 = None \<or> optJSONArray arr 0 = Some []"
  shows "fetchUserMemories_try cfg node clock address = Inr [] \<and>
         fetchUserMemories cfg node clock address = []"
  using assms by (auto simp: fetchUserMemories_def fetchUserMemories_try_def)

theorem fetchUserMemories_empty_witness:
  "fetchUserMemories_try \<lparr>NODE_URL = ''https://node/v1'', MODULE_ADDRESS = ''0x1'', MODULE_NAME = ''vault''\<rparr>
      (\<lambda>r. Response True (Parsed (JArr [JArr []]))) (\<lambda>i. 0) ''0xabc'' = Inr [] \<and>
   fetchUserMemories \<lparr>NODE_URL = ''https://node/v1'', MODULE_ADDRESS = ''0x1'', MODULE_NAME = ''vault''\<rparr>
      (\<lambda>r. Response True (Parsed (JArr [JArr []]))) (\<lambda>i. 0) ''0xabc'' = []"
  by (rule fetchUserMemories_empty [where b = "Parsed (JArr [JArr []])" and arr = "[JArr []]"])
     (simp_all add: new_JSONArray_def optJSONArray_def)

subsection \<open>The address\<close>

lemma unat_byte_less: "unat (b :: byte) < 256"
proof -
  have "unat b < 2 ^ LENGTH(8)" by (rule unsigned_less)
  then show ?thesis by simp
qed

lemma sint_unsigned_byte: "nat (if sint b < 0 then sint b + 2 ^ 8 else sint b) = unat (b :: byte)"
proof -
  have u: "uint b = sint b mod 256"
    using uint_sint [of b] by (simp add: take_bit_eq_mod)
  have lo: "- 128 \<le> sint b" and hi: "sint b < 128"
    using sint_ge [of b] sint_lt [of b] by simp_all
  have "sint b mod 256 = (if sint b < 0 then sint b + 256 else sint b)"
  proof (cases "sint b < 0")
    case True
    have "(sint b + 256) mod 256 = sint b + 256"
      using lo True by (intro mod_pos_pos_trivial) simp_all
    then show ?thesis using True by simp
  next
    case False
    then show ?thesis using hi by simp
  qed
  with u have "(if sint b < 0 then sint b + 2 ^ 8 else sint b) = uint b" by simp
  then show ?thesis by (simp only: nat_uint_eq)
qed

lemma hex_digits_small: "n < 16 \<Longrightarrow> hex_digits n = [hex_digit_char n]"
  by (simp add: hex_digits.simps)

lemma hex_digit_char_0: "hex_digit_char 0 = CHR ''0''"
  by code_simp

lemma format_02x_hex:
  "format_02x b = [hex_digit_char (unat b div 16), hex_digit_char (unat b mod 16)]"
proof -
  have lt: "unat b < 256"
    by (rule unat_byte_less)
  show ?thesis
  proof (cases "unat b < 16")
    case True
    then show ?thesis
      by (simp add: format_02x_def Let_def sint_unsigned_byte hex_digits_small hex_digit_char_0)
  next
    case False
    with lt have "unat b div 16 < 16" by simp
    with False show ?thesis
      by (simp add: format_02x_def Let_def sint_unsigned_byte hex_digits.simps [of "unat b"]
          hex_digits_small)
  qed
qed

lemma length_sha3_256: "length (sha3_256 m) = 32"
  by (simp add: sha3_256_def Let_def lane_bytes_def length_concat comp_def sum_list_triv)

lemma hex_digit_chars: "list_all (\<lambda>d. hex_digit_char d \<in> set ''0123456789abcdef'') [0..<16]"
  by code_simp

lemma hex_digit_char_range: "d < 16 \<Longrightarrow> hex_digit_char d \<in> set ''0123456789abcdef''"
  using hex_digit_chars unfolding list_all_iff by simp

lemma length_hex_lower: "length (hex_lower bs) = 2 * length bs"
  by (induction bs) (simp_all add: hex_lower_def)

lemma set_hex_lower: "c \<in> set (hex_lower bs) \<Longrightarrow> c \<in> set ''0123456789abcdef''"
proof (induction bs)
  case Nil
  then show ?case by (simp add: hex_lower_def)
next
  case (Cons b bs)
  have h: "hex_lower (b # bs) =
      hex_digit_char (unat b div 16) # hex_digit_char (unat b mod 16) # hex_lower bs"
    by (simp add: hex_lower_def)
  have d: "unat b div 16 < 16" and m: "unat b mod 16 < 16"
    using unat_byte_less [of b] by simp_all
  from Cons.prems h consider "c = hex_digit_char (unat b div 16)"
    | "c = hex_digit_char (unat b mod 16)" | "c \<in> set (hex_lower bs)"
    by auto
  then show ?case
  proof cases
    case 1
    with d show ?thesis by (simp only: hex_digit_char_range)
  next
    case 2
    with m show ?thesis by (simp only: hex_digit_char_range)
  next
    case 3
    then show ?thesis by (rule Cons.IH)
  qed
qed

text \<open>
  C1. For every public key, the address is \<open>0x\<close> followed by the lowercase hexadecimal
  encoding of SHA3-256 of the key with a zero byte appended; that encoding has exactly 64
  characters, each one of \<open>0123456789abcdef\<close>.
\<close>

theorem deriveAptosAddress_format:
  "deriveAptosAddress pk = ''0x'' @ hex_lower (sha3_256 (pk @ [0x00])) \<and>
   length (hex_lower (sha3_256 (pk @ [0x00]))) = 64 \<and>
   (\<forall>c \<in> set (hex_lower (sha3_256 (pk @ [0x00]))). c \<in> set ''0123456789abcdef'')"
proof (intro conjI)
  have "format_02x = (\<lambda>b. [hex_digit_char (unat b div 16), hex_digit_char (unat b mod 16)])"
    by (rule ext) (rule format_02x_hex)
  then show "deriveAptosAddress pk = ''0x'' @ hex_lower (sha3_256 (pk @ [0x00]))"
    by (simp add: deriveAptosAddress_def hex_lower_def)
  show "length (hex_lower (sha3_256 (pk @ [0x00]))) = 64"
    by (simp add: length_hex_lower length_sha3_256)
  show "\<forall>c \<in> set (hex_lower (sha3_256 (pk @ [0x00]))). c \<in> set ''0123456789abcdef''"
    using set_hex_lower by blast
qed

theorem deriveAptosAddress_format_witness:
  "take 2 (deriveAptosAddress []) = ''0x'' \<and> length (deriveAptosAddress []) = 66 \<and>
   list_all (\<lambda>c. c \<in> set ''0123456789abcdef'') (drop 2 (deriveAptosAddress []))"
  using deriveAptosAddress_format [of "[]"] by (simp add: list_all_iff del: list.set)

subsection \<open>Base64: decoding what was encoded\<close>

lemma byte_of_nat_high: "(of_nat (k * 256 + n) :: byte) = of_nat n"
proof -
  have "take_bit LENGTH(8) (k * 256 + n) = take_bit LENGTH(8) n"
    by (simp add: take_bit_eq_mod)
  then show ?thesis by (simp only: word_of_nat_eq_iff)
qed

lemma sextets_one: "(a div 4 * 64 + a mod 4 * 16) div 16 = (a :: nat)"
proof -
  define q r where "q = a div 4" and "r = a mod 4"
  have a: "a = 4 * q + r" by (simp add: q_def r_def)
  have "q * 64 + r * 16 = a * 16" using a by simp
  then show ?thesis unfolding q_def r_def by simp
qed

lemma sextets_two:
  "(a div 4 * 64 + (a mod 4 * 16 + b div 16)) * 64 + b mod 16 * 4 = a * 1024 + (b :: nat) * 4"
proof -
  define q r q' r' where "q = a div 4" and "r = a mod 4" and "q' = b div 16" and "r' = b mod 16"
  have a: "a = 4 * q + r" and b: "b = 16 * q' + r'"
    by (simp_all add: q_def r_def q'_def r'_def)
  have "(q * 64 + (r * 16 + q')) * 64 + r' * 4 = a * 1024 + b * 4"
    using a b by simp
  then show ?thesis unfolding q_def r_def q'_def r'_def .
qed

lemma sextets_three:
  "((a div 4 * 64 + (a mod 4 * 16 + b div 16)) * 64 + (b mod 16 * 4 + c div 64)) * 64 + c mod 64
     = a * 65536 + b * 256 + (c :: nat)"
proof -
  define q r q' r' q'' r'' where "q = a div 4" and "r = a mod 4" and "q' = b div 16"
    and "r' = b mod 16" and "q'' = c div 64" and "r'' = c mod 64"
  have a: "a = 4 * q + r" and b: "b = 16 * q' + r'" and c: "c = 64 * q'' + r''"
    by (simp_all add: q_def r_def q'_def r'_def q''_def r''_def)
  have "((q * 64 + (r * 16 + q')) * 64 + (r' * 4 + q'')) * 64 + r'' = a * 65536 + b * 256 + c"
    using a b c by simp
  then show ?thesis unfolding q_def r_def q'_def r'_def q''_def r''_def .
qed

lemma base64_one:
  fixes a :: byte
  shows "of_nat ((unat a div 4 * 64 + unat a mod 4 * 16) div 16) = a"
  by (simp only: sextets_one) simp

lemma base64_two:
  fixes a b :: byte
  shows "of_nat (((unat a div 4 * 64 + (unat a mod 4 * 16 + unat b div 16)) * 64
                  + unat b mod 16 * 4) div 1024) = a"
    and "of_nat (((unat a div 4 * 64 + (unat a mod 4 * 16 + unat b div 16)) * 64
                  + unat b mod 16 * 4) div 4) = b"
proof -
  have b: "unat b < 256" by (rule unat_byte_less)
  have "(unat a * 1024 + unat b * 4) div 1024 = unat a"
    using b by simp
  then show "of_nat (((unat a div 4 * 64 + (unat a mod 4 * 16 + unat b div 16)) * 64
                  + unat b mod 16 * 4) div 1024) = a"
    by (simp only: sextets_two) simp
  have "(unat a * 1024 + unat b * 4) div 4 = unat a * 256 + unat b"
    by simp
  then show "of_nat (((unat a div 4 * 64 + (unat a mod 4 * 16 + unat b div 16)) * 64
                  + unat b mod 16 * 4) div 4) = b"
    by (simp only: sextets_two byte_of_nat_high) simp
qed

lemma base64_three:
  fixes a b c :: byte
  shows "of_nat ((((unat a div 4 * 64 + (unat a mod 4 * 16 + unat b div 16)) * 64
                 + (unat b mod 16 * 4 + unat c div 64)) * 64 + unat c mod 64) div 65536) = a"
    and "of_nat ((((unat a div 4 * 64 + (unat a mod 4 * 16 + unat b div 16)) * 64
                 + (unat b mod 16 * 4 + unat c div 64)) * 64 + unat c mod 64) div 256) = b"
    and "of_nat (((unat a div 4 * 64 + (unat a mod 4 * 16 + unat b div 16)) * 64
                 + (unat b mod 16 * 4 + unat c div 64)) * 64 + unat c mod 64) = c"
proof -
  have b: "unat b < 256" and c: "unat c < 256" by (rule unat_byte_less)+
  have "(unat a * 65536 + unat b * 256 + unat c) div 65536 = unat a"
    using b c by simp
  then show "of_nat ((((unat a div 4 * 64 + (unat a mod 4 * 16 + unat b div 16)) * 64
                 + (unat b mod 16 * 4 + unat c div 64)) * 64 + unat c mod 64) div 65536) = a"
    by (simp only: sextets_three) simp
  have "(unat a * 65536 + unat b * 256 + unat c) div 256 = unat a * 256 + unat b"
    using c by simp
  then show "of_nat ((((unat a div 4 * 64 + (unat a mod 4 * 16 + unat b div 16)) * 64
                 + (unat b mod 16 * 4 + unat c div 64)) * 64 + unat c mod 64) div 256) = b"
    by (simp only: sextets_three byte_of_nat_high) simp
  have "unat a * 65536 + unat b * 256 + unat c = (unat a * 256 + unat b) * 256 + unat c"
    by simp
  then show "of_nat (((unat a div 4 * 64 + (unat a mod 4 * 16 + unat b div 16)) * 64
                 + (unat b mod 16 * 4 + unat c div 64)) * 64 + unat c mod 64) = c"
    by (simp only: sextets_three byte_of_nat_high) simp
qed


lemma base64_symbols: "list_all (\<lambda>n. base64_symbol (base64_char n) = Data n) [0..<64]"
  by code_simp

lemma base64_symbol_char: "n < 64 \<Longrightarrow> base64_symbol (base64_char n) = Data n"
  using base64_symbols unfolding list_all_iff by simp

lemma base64_symbol_pad: "base64_symbol (CHR ''='') = Equals"
  by (simp add: base64_symbol_def)

lemma base64_process_quad:
  assumes "s0 < 64" "s1 < 64" "s2 < 64" "s3 < 64"
  shows "base64_process 0 v out
           (base64_char s0 # base64_char s1 # base64_char s2 # base64_char s3 # cs) =
         base64_process 0 (((s0 * 64 + s1) * 64 + s2) * 64 + s3)
           (out @ [of_nat ((((s0 * 64 + s1) * 64 + s2) * 64 + s3) div 65536),
                   of_nat ((((s0 * 64 + s1) * 64 + s2) * 64 + s3) div 256),
                   of_nat (((s0 * 64 + s1) * 64 + s2) * 64 + s3)]) cs"
  using assms by (simp add: base64_symbol_char Let_def)

lemma base64_process_pad1:
  assumes "s0 < 64" "s1 < 64" "s2 < 64"
  shows "base64_process 0 v out [base64_char s0, base64_char s1, base64_char s2, CHR ''=''] =
         Inr (out @ [of_nat (((s0 * 64 + s1) * 64 + s2) div 1024),
                     of_nat (((s0 * 64 + s1) * 64 + s2) div 4)])"
  using assms by (simp add: base64_symbol_char base64_symbol_pad)

lemma base64_process_pad2:
  assumes "s0 < 64" "s1 < 64"
  shows "base64_process 0 v out [base64_char s0, base64_char s1, CHR ''='', CHR ''=''] =
         Inr (out @ [of_nat ((s0 * 64 + s1) div 16)])"
  using assms by (simp add: base64_symbol_char base64_symbol_pad)

lemma base64_process_encode:
  "base64_process 0 v out (encodeToString bs) = Inr (out @ bs)"
proof (induction bs arbitrary: v out rule: encodeToString.induct)
  case 1
  then show ?case by simp
next
  case (2 a)
  have "unat a div 4 < 64" "unat a mod 4 * 16 < 64"
    using unat_byte_less [of a] by simp_all
  then show ?case
    by (simp only: encodeToString.simps base64_process_pad2 base64_one)
next
  case (3 a b)
  have "unat a div 4 < 64" "unat a mod 4 * 16 + unat b div 16 < 64" "unat b mod 16 * 4 < 64"
    using unat_byte_less [of a] unat_byte_less [of b] by simp_all
  then show ?case
    by (simp only: encodeToString.simps base64_process_pad1 base64_two)
next
  case (4 a b c rest)
  have "unat a div 4 < 64" "unat a mod 4 * 16 + unat b div 16 < 64"
    "unat b mod 16 * 4 + unat c div 64 < 64" "unat c mod 64 < 64"
    using unat_byte_less [of a] unat_byte_less [of b] unat_byte_less [of c] by simp_all
  then show ?case
    by (simp only: encodeToString.simps append_Cons append_Nil base64_process_quad
        base64_three "4.IH" append_assoc)
qed

lemma base64_decode_encode: "base64_decode (encodeToString bs) = Inr bs"
  by (simp add: base64_decode_def base64_process_encode)

lemma encodeToString_inject: "encodeToString xs = encodeToString ys \<longleftrightarrow> xs = ys"
proof
  assume "encodeToString xs = encodeToString ys"
  then have "base64_decode (encodeToString xs) = base64_decode (encodeToString ys)" by simp
  then show "xs = ys" by (simp only: base64_decode_encode sum.inject)
qed simp

subsection \<open>Encrypting and decrypting\<close>

lemma length_aes_encrypt: "length (aes_encrypt key blk) = 16"
  by (simp add: aes_encrypt_def Let_def add_round_key_def)

lemma length_keystream: "length (keystream key cb n) = n"
proof (induction key cb n rule: keystream.induct)
  case (1 key cb n)
  show ?case
  proof (cases "n = 0")
    case True
    then show ?thesis by (simp add: keystream.simps)
  next
    case False
    with "1.IH" have "length (keystream key (inc32 cb) (n - 16)) = n - 16" by simp
    with False show ?thesis
      by (subst keystream.simps) (simp add: length_aes_encrypt min_def)
  qed
qed

lemma length_xor_bytes: "length (xor_bytes xs ys) = min (length xs) (length ys)"
  by (simp add: xor_bytes_def)

lemma xor_bytes_cancel:
  "length ks = length xs \<Longrightarrow> xor_bytes (xor_bytes xs ks) ks = xs"
proof (induction xs ks rule: list_induct2')
  case (4 x xs k ks)
  then show ?case by (simp add: xor_bytes_def xor.assoc)
qed (simp_all add: xor_bytes_def)

lemma length_gctr: "length (gctr key icb xs) = length xs"
  by (simp add: gctr_def length_xor_bytes length_keystream)

lemma gctr_gctr: "gctr key icb (gctr key icb xs) = xs"
  by (simp add: gctr_def length_xor_bytes length_keystream xor_bytes_cancel)

lemma length_gcm_tag: "length (gcm_tag key nonce c) = 16"
  by (simp add: gcm_tag_def Let_def length_gctr word_block_def)

lemma gcm_decrypt_encrypt: "gcm_decrypt key nonce (gcm_encrypt key nonce plain) = Inr plain"
  by (simp add: gcm_decrypt_def gcm_encrypt_def Let_def length_gcm_tag length_gctr gctr_gctr)

text \<open>
  A plain text is returned only for an input whose last 16 bytes are the tag of the rest;
  an input that ends in any other 16 bytes is refused.
\<close>

lemma gcm_decrypt_authentic:
  assumes "gcm_decrypt key nonce input = Inr plain"
  shows "16 \<le> length input"
    and "gcm_tag key nonce (take (length input - 16) input) = drop (length input - 16) input"
    and "plain = gctr key (inc32 (gcm_j0 key nonce)) (take (length input - 16) input)"
  using assms by (auto simp: gcm_decrypt_def Let_def split: if_splits)

lemma gcm_decrypt_wrong_tag:
  assumes "length t = 16" and "t \<noteq> gcm_tag key nonce c"
  shows "gcm_decrypt key nonce (c @ t) = Inl AEADBadTagException"
  using assms by (auto simp: gcm_decrypt_def Let_def)

lemma length_generateEncryptionKey: "length (generateEncryptionKey rnd) = 32"
  by (simp add: generateEncryptionKey_def)

lemma getEncryptionKey_stable:
  assumes "getEncryptionKey rnd sp = (sp', Inr key)"
    and "sp'' KEY_ENCRYPTION_KEY = sp' KEY_ENCRYPTION_KEY"
  shows "getEncryptionKey rnd' sp'' = (sp'', Inr key)"
proof (cases "sp KEY_ENCRYPTION_KEY")
  case None
  with assms(1) have sp': "sp' = sp(KEY_ENCRYPTION_KEY \<mapsto> encodeToString key)"
    and key: "key = generateEncryptionKey rnd"
    by (auto simp: getEncryptionKey_def Let_def)
  from key have "key \<noteq> []"
    using length_generateEncryptionKey [of rnd] by auto
  with assms(2) sp' show ?thesis
    by (simp add: getEncryptionKey_def base64_decode_encode)
next
  case (Some encoded)
  with assms(1) have "sp' = sp" and "base64_decode encoded = Inr key" and "key \<noteq> []"
    by (auto simp: getEncryptionKey_def split: sum.splits if_splits)
  with assms(2) Some show ?thesis
    by (simp add: getEncryptionKey_def)
qed

text \<open>
  C2. When \<open>encryptData\<close> returns a blob for the bytes \<open>x\<close>, \<open>decryptData\<close> applied to that
  blob returns exactly \<open>x\<close>, in any state of the preferences whose stored envelope key is
  the one \<open>encryptData\<close> left.
\<close>

theorem decrypt_encrypt_roundtrip:
  assumes "encryptData rnd_key rnd_iv sp x = (sp', Inr blob)"
    and "sp'' KEY_ENCRYPTION_KEY = sp' KEY_ENCRYPTION_KEY"
  shows "decryptData rnd_key' sp'' blob = (sp'', Inr x)"
proof -
  from assms(1) obtain key where
    key: "getEncryptionKey rnd_key sp = (sp', Inr key)" and size: "valid_key_size key"
    and blob: "blob = \<lparr> iv = encodeToString (map rnd_iv [0..<12]),
                        data = encodeToString (gcm_encrypt key (map rnd_iv [0..<12]) x) \<rparr>"
    by (auto simp: encryptData_def Let_def split: prod.splits sum.splits if_splits)
  have "getEncryptionKey rnd_key' sp'' = (sp'', Inr key)"
    using key assms(2) by (rule getEncryptionKey_stable)
  moreover have "length (map rnd_iv [0..<12]) = 12" by simp
  then have "map rnd_iv [0..<12] \<noteq> []" by (metis length_0_conv zero_neq_numeral)
  ultimately show ?thesis
    unfolding decryptData_def blob
    by (simp add: size base64_decode_encode gcm_decrypt_encrypt)
qed

lemma encryptData_no_key:
  "sp KEY_ENCRYPTION_KEY = None \<Longrightarrow>
   encryptData rnd_key rnd_iv sp x =
     (sp(KEY_ENCRYPTION_KEY \<mapsto> encodeToString (generateEncryptionKey rnd_key)),
      Inr \<lparr> iv = encodeToString (map rnd_iv [0..<12]),
             data = encodeToString (gcm_encrypt (generateEncryptionKey rnd_key) (map rnd_iv [0..<12]) x) \<rparr>)"
  by (simp add: encryptData_def getEncryptionKey_def Let_def valid_key_size_def
      length_generateEncryptionKey)

theorem decrypt_encrypt_roundtrip_witness:
  "\<exists>sp' blob. encryptData example_random example_random Map.empty [0x68, 0x69] = (sp', Inr blob) \<and>
      sp' KEY_ENCRYPTION_KEY = sp' KEY_ENCRYPTION_KEY \<and>
      decryptData example_random sp' blob = (sp', Inr [0x68, 0x69])"
proof -
  have e: "encryptData example_random example_random Map.empty [0x68, 0x69] =
     (Map.empty(KEY_ENCRYPTION_KEY \<mapsto> encodeToString (generateEncryptionKey example_random)),
      Inr \<lparr> iv = encodeToString (map example_random [0..<12]),
             data = encodeToString (gcm_encrypt (generateEncryptionKey example_random)
                      (map example_random [0..<12]) [0x68, 0x69]) \<rparr>)"
    by (rule encryptData_no_key) simp
  note r = decrypt_encrypt_roundtrip [OF e, where rnd_key' = example_random
      and sp'' = "Map.empty(KEY_ENCRYPTION_KEY \<mapsto> encodeToString (generateEncryptionKey example_random))"]
  from r [OF refl] e show ?thesis by (intro exI conjI) (assumption | rule refl)+
qed

subsection \<open>Importing a wallet\<close>

lemma importWallet_try_cases:
  "importWallet_try lib rnd sp raw =
     (let clean = collapse_spaces (lowercase (trim raw));
          n = length (split_on (CHR '' '') clean)
      in if (n = 12 \<or> n = 24) \<and> bip39_valid lib clean
         then (sp(KEY_PRIVATE_KEY \<mapsto> encodeToString (copyOf (bip39_seed lib clean) 32),
                  KEY_PUBLIC_KEY \<mapsto> encodeToString (ed25519_public lib (copyOf (bip39_seed lib clean) 32)),
                  KEY_ADDRESS \<mapsto> deriveAptosAddress (ed25519_public lib (copyOf (bip39_seed lib clean) 32)),
                  KEY_MNEMONIC \<mapsto> clean,
                  KEY_ENCRYPTION_KEY \<mapsto> encodeToString (generateEncryptionKey rnd)),
               Inr (deriveAptosAddress (ed25519_public lib (copyOf (bip39_seed lib clean) 32))))
         else (sp, Inl (if n = 12 \<or> n = 24 then MnemonicException else IllegalArgumentException)))"
  by (simp add: importWallet_try_def cleanMnemonic_of_def toSeed_def generateKeyPairFromSeed_def Let_def)

lemma importWalletFromMnemonic_cases:
  "importWalletFromMnemonic lib rnd sp raw =
     (let clean = collapse_spaces (lowercase (trim raw));
          n = length (split_on (CHR '' '') clean)
      in if (n = 12 \<or> n = 24) \<and> bip39_valid lib clean
         then (sp(KEY_PRIVATE_KEY \<mapsto> encodeToString (copyOf (bip39_seed lib clean) 32),
                  KEY_PUBLIC_KEY \<mapsto> encodeToString (ed25519_public lib (copyOf (bip39_seed lib clean) 32)),
                  KEY_ADDRESS \<mapsto> deriveAptosAddress (ed25519_public lib (copyOf (bip39_seed lib clean) 32)),
                  KEY_MNEMONIC \<mapsto> clean,
                  KEY_ENCRYPTION_KEY \<mapsto> encodeToString (generateEncryptionKey rnd)),
               Inr (deriveAptosAddress (ed25519_public lib (copyOf (bip39_seed lib clean) 32))))
         else (sp, Inl InvalidRecoveryPhrase))"
  by (simp add: importWalletFromMnemonic_def importWallet_try_cases Let_def)

lemma prefs_keys_distinct:
  "KEY_PRIVATE_KEY \<noteq> KEY_PUBLIC_KEY" "KEY_PRIVATE_KEY \<noteq> KEY_ADDRESS"
  "KEY_PRIVATE_KEY \<noteq> KEY_MNEMONIC" "KEY_PRIVATE_KEY \<noteq> KEY_ENCRYPTION_KEY"
  "KEY_PUBLIC_KEY \<noteq> KEY_ADDRESS" "KEY_PUBLIC_KEY \<noteq> KEY_MNEMONIC"
  "KEY_PUBLIC_KEY \<noteq> KEY_ENCRYPTION_KEY" "KEY_ADDRESS \<noteq> KEY_MNEMONIC"
  "KEY_ADDRESS \<noteq> KEY_ENCRYPTION_KEY" "KEY_MNEMONIC \<noteq> KEY_ENCRYPTION_KEY"
  by (simp_all add: KEY_PRIVATE_KEY_def KEY_PUBLIC_KEY_def KEY_ADDRESS_def KEY_MNEMONIC_def
      KEY_ENCRYPTION_KEY_def)

text \<open>What a successful import leaves in the preferences.\<close>

lemma import_success:
  assumes "importWalletFromMnemonic lib rnd sp raw = (sp', Inr address)"
  defines "clean \<equiv> collapse_spaces (lowercase (trim raw))"
  defines "private \<equiv> copyOf (bip39_seed lib clean) 32"
  shows "address = deriveAptosAddress (ed25519_public lib private)"
    and "sp' KEY_PRIVATE_KEY = Some (encodeToString private)"
    and "sp' KEY_PUBLIC_KEY = Some (encodeToString (ed25519_public lib private))"
    and "sp' KEY_ADDRESS = Some address"
    and "sp' KEY_MNEMONIC = Some clean"
    and "sp' KEY_ENCRYPTION_KEY = Some (encodeToString (generateEncryptionKey rnd))"
    and "k \<notin> {KEY_PRIVATE_KEY, KEY_PUBLIC_KEY, KEY_ADDRESS, KEY_MNEMONIC, KEY_ENCRYPTION_KEY}
           \<Longrightarrow> sp' k = sp k"
proof -
  from assms(1) have sp': "sp' = sp(KEY_PRIVATE_KEY \<mapsto> encodeToString private,
                  KEY_PUBLIC_KEY \<mapsto> encodeToString (ed25519_public lib private),
                  KEY_ADDRESS \<mapsto> deriveAptosAddress (ed25519_public lib private),
                  KEY_MNEMONIC \<mapsto> clean,
                  KEY_ENCRYPTION_KEY \<mapsto> encodeToString (generateEncryptionKey rnd))"
    and a: "address = deriveAptosAddress (ed25519_public lib private)"
    unfolding importWalletFromMnemonic_cases clean_def private_def Let_def
    by (auto split: if_splits)
  show "address = deriveAptosAddress (ed25519_public lib private)" by (rule a)
  show "sp' KEY_PRIVATE_KEY = Some (encodeToString private)"
    and "sp' KEY_PUBLIC_KEY = Some (encodeToString (ed25519_public lib private))"
    and "sp' KEY_ADDRESS = Some address"
    and "sp' KEY_MNEMONIC = Some clean"
    and "sp' KEY_ENCRYPTION_KEY = Some (encodeToString (generateEncryptionKey rnd))"
    unfolding sp' a by (simp_all add: prefs_keys_distinct)
  show "sp' k = sp k"
    if "k \<notin> {KEY_PRIVATE_KEY, KEY_PUBLIC_KEY, KEY_ADDRESS, KEY_MNEMONIC, KEY_ENCRYPTION_KEY}"
    using that unfolding sp' by simp
qed

lemma example_clean:
  "collapse_spaces (lowercase (trim example_phrase)) =
     ''legal winner thank year wave sausage worth useful legal winner thank yellow''"
  by code_simp

lemma example_words:
  "length (split_on (CHR '' '')
      ''legal winner thank year wave sausage worth useful legal winner thank yellow'') = 12"
  by code_simp

lemma example_short:
  "length (split_on (CHR '' '') (collapse_spaces (lowercase (trim ''  Legal   WINNER '')))) = 2"
  by code_simp

lemma example_import:
  "importWalletFromMnemonic example_libraries rnd sp example_phrase =
     (sp(KEY_PRIVATE_KEY \<mapsto> encodeToString (copyOf (bip39_seed example_libraries
              ''legal winner thank year wave sausage worth useful legal winner thank yellow'') 32),
         KEY_PUBLIC_KEY \<mapsto> encodeToString (ed25519_public example_libraries (copyOf (bip39_seed example_libraries
              ''legal winner thank year wave sausage worth useful legal winner thank yellow'') 32)),
         KEY_ADDRESS \<mapsto> deriveAptosAddress (ed25519_public example_libraries (copyOf (bip39_seed example_libraries
              ''legal winner thank year wave sausage worth useful legal winner thank yellow'') 32)),
         KEY_MNEMONIC \<mapsto> ''legal winner thank year wave sausage worth useful legal winner thank yellow'',
         KEY_ENCRYPTION_KEY \<mapsto> encodeToString (generateEncryptionKey rnd)),
      Inr (deriveAptosAddress (ed25519_public example_libraries (copyOf (bip39_seed example_libraries
              ''legal winner thank year wave sausage worth useful legal winner thank yellow'') 32))))"
proof -
  have "bip39_valid example_libraries
      ''legal winner thank year wave sausage worth useful legal winner thank yellow''"
    by (simp add: example_libraries_def)
  then show ?thesis
    unfolding importWalletFromMnemonic_cases example_clean Let_def example_words by simp
qed

text \<open>
  C6. The import first normalises the raw phrase: it is trimmed, then lowercased, then every
  run of white space in it becomes one space. When the normalised phrase has neither 12
  nor 24 words, or the BIP-39 library does not accept it (its words and its checksum), the
  import throws its one exception, the specification's \<open>InvalidMnemonic\<close>, and the
  preferences are what they were. An import that returns an address has passed both checks.
\<close>

theorem importWallet_rejects:
  "((length (split_on (CHR '' '') (collapse_spaces (lowercase (trim raw)))) \<noteq> 12 \<and>
     length (split_on (CHR '' '') (collapse_spaces (lowercase (trim raw)))) \<noteq> 24) \<or>
    \<not> bip39_valid lib (collapse_spaces (lowercase (trim raw)))
    \<longrightarrow> importWalletFromMnemonic lib rnd sp raw = (sp, Inl InvalidRecoveryPhrase)) \<and>
   (\<forall>sp' address. importWalletFromMnemonic lib rnd sp raw = (sp', Inr address) \<longrightarrow>
      (length (split_on (CHR '' '') (collapse_spaces (lowercase (trim raw)))) = 12 \<or>
       length (split_on (CHR '' '') (collapse_spaces (lowercase (trim raw)))) = 24) \<and>
      bip39_valid lib (collapse_spaces (lowercase (trim raw))))"
  by (auto simp: importWalletFromMnemonic_cases Let_def split: if_splits)

theorem importWallet_rejects_witness:
  "importWalletFromMnemonic example_libraries example_random Map.empty ''  Legal   WINNER ''
     = (Map.empty, Inl InvalidRecoveryPhrase) \<and>
   (length (split_on (CHR '' '') (collapse_spaces (lowercase (trim example_phrase)))) = 12 \<or>
    length (split_on (CHR '' '') (collapse_spaces (lowercase (trim example_phrase)))) = 24) \<and>
   bip39_valid example_libraries (collapse_spaces (lowercase (trim example_phrase)))"
proof -
  have "importWalletFromMnemonic example_libraries example_random Map.empty ''  Legal   WINNER ''
     = (Map.empty, Inl InvalidRecoveryPhrase)"
    using importWallet_rejects [of "''  Legal   WINNER ''" example_libraries example_random Map.empty]
    by (simp add: example_short)
  moreover have "(length (split_on (CHR '' '') (collapse_spaces (lowercase (trim example_phrase)))) = 12 \<or>
    length (split_on (CHR '' '') (collapse_spaces (lowercase (trim example_phrase)))) = 24) \<and>
   bip39_valid example_libraries (collapse_spaces (lowercase (trim example_phrase)))"
    using importWallet_rejects [of example_phrase example_libraries example_random Map.empty]
      example_import [of example_random Map.empty]
    by blast
  ultimately show ?thesis by blast
qed

text \<open>
  C5. Two successful imports of the same phrase (or of two phrases with the same normal
  form), into whatever preferences and with whatever random draws, return the same
  address and store the same address, the same private key and the same public key: the
  private key is the first 32 bytes of the seed of the phrase, the public key is its
  Ed25519 public key, and the address is derived from the public key.
\<close>

theorem import_deterministic:
  assumes "importWalletFromMnemonic lib rnd1 sp1 raw1 = (sp1', Inr address1)"
    and "importWalletFromMnemonic lib rnd2 sp2 raw2 = (sp2', Inr address2)"
    and "collapse_spaces (lowercase (trim raw1)) = collapse_spaces (lowercase (trim raw2))"
  shows "address1 = address2 \<and>
         sp1' KEY_ADDRESS = Some address1 \<and> sp2' KEY_ADDRESS = Some address1 \<and>
         (\<exists>private public.
            public = ed25519_public lib private \<and> address1 = deriveAptosAddress public \<and>
            sp1' KEY_PRIVATE_KEY = Some (encodeToString private) \<and>
            sp2' KEY_PRIVATE_KEY = Some (encodeToString private) \<and>
            sp1' KEY_PUBLIC_KEY = Some (encodeToString public) \<and>
            sp2' KEY_PUBLIC_KEY = Some (encodeToString public))"
proof -
  let ?private = "copyOf (bip39_seed lib (collapse_spaces (lowercase (trim raw1)))) 32"
  note s1 = import_success(1-4) [OF assms(1)]
    and s2 = import_success(1-4) [OF assms(2), folded assms(3)]
  from s1 s2 show ?thesis
    by (intro conjI exI [of _ ?private] exI [of _ "ed25519_public lib ?private"]) simp_all
qed

theorem import_deterministic_witness:
  "snd (importWalletFromMnemonic example_libraries example_random Map.empty example_phrase) =
   snd (importWalletFromMnemonic example_libraries other_random
          (Map.empty(KEY_ADDRESS \<mapsto> ''0x01''))
          ''legal winner thank year wave sausage worth useful legal winner thank yellow'') \<and>
   fst (importWalletFromMnemonic example_libraries example_random Map.empty example_phrase) KEY_PRIVATE_KEY =
   fst (importWalletFromMnemonic example_libraries other_random
          (Map.empty(KEY_ADDRESS \<mapsto> ''0x01''))
          ''legal winner thank year wave sausage worth useful legal winner thank yellow'') KEY_PRIVATE_KEY"
proof -
  obtain sp1' address1 where 1:
    "importWalletFromMnemonic example_libraries example_random Map.empty example_phrase
       = (sp1', Inr address1)"
    using example_import by blast
  have c: "collapse_spaces (lowercase (trim
      ''legal winner thank year wave sausage worth useful legal winner thank yellow'')) =
      ''legal winner thank year wave sausage worth useful legal winner thank yellow''"
    by code_simp
  have v: "bip39_valid example_libraries
      ''legal winner thank year wave sausage worth useful legal winner thank yellow''"
    by (simp add: example_libraries_def)
  obtain sp2' address2 where 2:
    "importWalletFromMnemonic example_libraries other_random (Map.empty(KEY_ADDRESS \<mapsto> ''0x01''))
       ''legal winner thank year wave sausage worth useful legal winner thank yellow''
       = (sp2', Inr address2)"
    unfolding importWalletFromMnemonic_cases c Let_def example_words using v by simp
  from import_deterministic [OF 1 2] example_clean c
  have "address1 = address2" and "sp1' KEY_PRIVATE_KEY = sp2' KEY_PRIVATE_KEY"
    by auto
  with 1 2 show ?thesis by simp
qed


lemma valid_generated_key: "valid_key_size (generateEncryptionKey rnd)"
  by (simp add: valid_key_size_def length_generateEncryptionKey)

lemma getEncryptionKey_stored:
  assumes "sp KEY_ENCRYPTION_KEY = Some (encodeToString key)" and "valid_key_size key"
  shows "getEncryptionKey rk sp = (sp, Inr key)"
proof -
  from assms(2) have "key \<noteq> []" by (auto simp: valid_key_size_def)
  with assms(1) show ?thesis
    by (simp add: getEncryptionKey_def base64_decode_encode)
qed

lemma encryptData_stored:
  assumes "sp KEY_ENCRYPTION_KEY = Some (encodeToString key)" and "valid_key_size key"
  shows "encryptData rk ri sp x =
     (sp, Inr \<lparr> iv = encodeToString (map ri [0..<12]),
                 data = encodeToString (gcm_encrypt key (map ri [0..<12]) x) \<rparr>)"
  using assms(2) by (simp add: encryptData_def getEncryptionKey_stored [where sp = sp and key = key, OF assms] Let_def)

lemma decryptData_stored:
  assumes "sp KEY_ENCRYPTION_KEY = Some (encodeToString key)" and "valid_key_size key"
    and "nonce \<noteq> []"
  shows "decryptData rk sp \<lparr> iv = encodeToString nonce, data = encodeToString ct \<rparr> =
     (sp, gcm_decrypt key nonce ct)"
  using assms(2,3)
  by (simp add: decryptData_def getEncryptionKey_stored [where sp = sp and key = key, OF assms(1,2)] base64_decode_encode)

lemma nonce_not_empty: "map ri [0..<12] \<noteq> []"
proof -
  have "length (map ri [0..<12]) = 12" by simp
  then show ?thesis by (metis length_0_conv zero_neq_numeral)
qed

lemma gcm_decrypt_other_key:
  "gcm_decrypt key' nonce (gcm_encrypt key nonce x) =
     (if gcm_tag key' nonce (gctr key (inc32 (gcm_j0 key nonce)) x)
           = gcm_tag key nonce (gctr key (inc32 (gcm_j0 key nonce)) x)
      then Inr (gctr key' (inc32 (gcm_j0 key' nonce)) (gctr key (inc32 (gcm_j0 key nonce)) x))
      else Inl AEADBadTagException)"
  by (simp add: gcm_decrypt_def gcm_encrypt_def Let_def length_gcm_tag length_gctr)

text \<open>
  A wallet is imported, a blob is encrypted, and the same phrase is imported again. The
  encryption leaves the preferences as they are; the two imports store the same envelope
  key exactly when their random draws are the same; and \<open>decryptData\<close> then opens the
  blob with the key of the second import.
\<close>

lemma reimport_facts:
  assumes i1: "importWalletFromMnemonic lib rnd1 sp0 raw = (sp1, Inr address1)"
    and enc: "encryptData rk ri sp1 x = (sp1', Inr blob)"
    and i2: "importWalletFromMnemonic lib rnd2 sp1' raw = (sp2, Inr address2)"
  shows "sp1' = sp1"
    and "blob = \<lparr> iv = encodeToString (map ri [0..<12]),
                   data = encodeToString (gcm_encrypt (generateEncryptionKey rnd1) (map ri [0..<12]) x) \<rparr>"
    and "(sp2 KEY_ENCRYPTION_KEY = sp1 KEY_ENCRYPTION_KEY) =
         (generateEncryptionKey rnd2 = generateEncryptionKey rnd1)"
    and "decryptData rk' sp2 blob =
         (sp2, gcm_decrypt (generateEncryptionKey rnd2) (map ri [0..<12])
                 (gcm_encrypt (generateEncryptionKey rnd1) (map ri [0..<12]) x))"
proof -
  note k1 = import_success(6) [OF i1] and k2 = import_success(6) [OF i2]
  from enc show 1: "sp1' = sp1" and 2: "blob = \<lparr> iv = encodeToString (map ri [0..<12]),
      data = encodeToString (gcm_encrypt (generateEncryptionKey rnd1) (map ri [0..<12]) x) \<rparr>"
    unfolding encryptData_stored [where sp = sp1 and key = "generateEncryptionKey rnd1", OF k1 valid_generated_key] by simp_all
  show "(sp2 KEY_ENCRYPTION_KEY = sp1 KEY_ENCRYPTION_KEY) =
         (generateEncryptionKey rnd2 = generateEncryptionKey rnd1)"
    unfolding k1 k2 by (simp add: encodeToString_inject)
  show "decryptData rk' sp2 blob =
         (sp2, gcm_decrypt (generateEncryptionKey rnd2) (map ri [0..<12])
                 (gcm_encrypt (generateEncryptionKey rnd1) (map ri [0..<12]) x))"
    unfolding 2 by (rule decryptData_stored [where sp = sp2 and key = "generateEncryptionKey rnd2", OF k2 valid_generated_key nonce_not_empty])
qed

end
